theory Spec2Isabelle
  imports Main
begin

section \<open>JavaScript values as the deployer sees them\<close>

text \<open>
  The entry-point synthesizer (\<^verbatim>\<open>create-deploy-index.ts\<close>) inspects its input at run time:
  it asks \<^verbatim>\<open>typeof\<close>, \<^verbatim>\<open>Array.isArray\<close>, enumerates \<^verbatim>\<open>Object.entries\<close>, spreads and deletes
  properties, and interpolates values into template literals. The model therefore keeps the
  values dynamic. A plain object is the list of its own enumerable properties in the order
  \<^verbatim>\<open>Object.entries\<close> yields them. A number is kept abstract (type \<open>'n\<close>): its text and its
  truthiness are given by the language runtime, passed as a \<open>JsRuntime\<close>. A function value
  carries its source text, a symbol its description. The model runs no user function: what
  ToString gives for an object that has a \<^verbatim>\<open>toString\<close> or \<^verbatim>\<open>valueOf\<close> property of its own is
  left to the runtime (\<open>objectToPrimitive\<close>). A string of the model is a list of bytes;
  where the code enumerates the UTF-16 code units of a string, the runtime gives them
  (\<open>codeUnits\<close>).
\<close>

datatype JsError = Error string | TypeError

datatype 'n JsValue =
    JsUndefined
  | JsNull
  | JsBoolean bool
  | JsNumber 'n
  | JsBigInt int
  | JsString string
  | JsSymbol string
  | JsFunction string
  | JsArray "'n JsValue list"
  | JsObject "(string \<times> 'n JsValue) list"

type_synonym 'n JsProps = "(string \<times> 'n JsValue) list"

record 'n JsRuntime =
  numberToString :: "'n \<Rightarrow> string"
  numberIsTruthy :: "'n \<Rightarrow> bool"
  objectToPrimitive :: "(string \<times> 'n JsValue) list \<Rightarrow> JsError + string"
  codeUnits :: "string \<Rightarrow> string list"

text \<open>Sequencing of computations that may throw: the first exception wins.\<close>

definition andThen :: "JsError + 'a \<Rightarrow> ('a \<Rightarrow> JsError + 'b) \<Rightarrow> JsError + 'b" where
  "andThen r f = (case r of Inl e \<Rightarrow> Inl e | Inr x \<Rightarrow> f x)"

fun mapResult :: "('a \<Rightarrow> JsError + 'b) \<Rightarrow> 'a list \<Rightarrow> JsError + 'b list" where
  "mapResult f [] = Inr []"
| "mapResult f (x # xs) =
     (case f x of
        Inl e \<Rightarrow> Inl e
      | Inr y \<Rightarrow> (case mapResult f xs of Inl e \<Rightarrow> Inl e | Inr ys \<Rightarrow> Inr (y # ys)))"

text \<open>\<^verbatim>\<open>parts.join(sep)\<close> on an array of strings.\<close>

fun joinWith :: "string \<Rightarrow> string list \<Rightarrow> string" where
  "joinWith sep [] = []"
| "joinWith sep [s] = s"
| "joinWith sep (s # t # ss) = s @ sep @ joinWith sep (t # ss)"

text \<open>The template fragment \<^verbatim>\<open>'${s}'\<close>.\<close>

definition quoted :: "string \<Rightarrow> string" where
  "quoted s = [CHR 0x27] @ s @ [CHR 0x27]"

text \<open>Decimal text of an integer, as \<^verbatim>\<open>BigInt.prototype.toString\<close> and array indices give it.\<close>

definition digitChar :: "nat \<Rightarrow> char" where
  "digitChar d = (''0123456789'' ! d)"

fun natToString :: "nat \<Rightarrow> string" where
  "natToString n =
     (if n < 10 then [digitChar n] else natToString (n div 10) @ [digitChar (n mod 10)])"

declare natToString.simps [simp del]

definition bigintToString :: "int \<Rightarrow> string" where
  "bigintToString i = (if i < 0 then ''-'' @ natToString (nat (- i)) else natToString (nat i))"

text \<open>
  The abstract operation ToString, which a template literal applies to every interpolated
  value. A symbol cannot be converted and throws a TypeError; an array is joined with commas,
  its \<^verbatim>\<open>undefined\<close> and \<^verbatim>\<open>null\<close> elements rendered empty; a plain object that has no
  \<^verbatim>\<open>toString\<close> and no \<^verbatim>\<open>valueOf\<close> of its own is \<^verbatim>\<open>[object Object]\<close>, and one that has is
  converted by calling them, which the runtime does.
\<close>

fun toStringJs :: "'n JsRuntime \<Rightarrow> 'n JsValue \<Rightarrow> JsError + string"
  and joinElements :: "'n JsRuntime \<Rightarrow> 'n JsValue list \<Rightarrow> JsError + string list" where
  "toStringJs rt JsUndefined = Inr ''undefined''"
| "toStringJs rt JsNull = Inr ''null''"
| "toStringJs rt (JsBoolean b) = Inr (if b then ''true'' else ''false'')"
| "toStringJs rt (JsNumber n) = Inr (numberToString rt n)"
| "toStringJs rt (JsBigInt i) = Inr (bigintToString i)"
| "toStringJs rt (JsString s) = Inr s"
| "toStringJs rt (JsSymbol d) = Inl TypeError"
| "toStringJs rt (JsFunction src) = Inr src"
| "toStringJs rt (JsArray vs) =
     (case joinElements rt vs of Inl e \<Rightarrow> Inl e | Inr parts \<Rightarrow> Inr (joinWith '','' parts))"
| "toStringJs rt (JsObject props) =
     (if map_of props ''toString'' = None \<and> map_of props ''valueOf'' = None
      then Inr ''[object Object]''
      else objectToPrimitive rt props)"
| "joinElements rt [] = Inr []"
| "joinElements rt (v # vs) =
     (case (if v = JsUndefined \<or> v = JsNull then Inr [] else toStringJs rt v) of
        Inl e \<Rightarrow> Inl e
      | Inr s \<Rightarrow> (case joinElements rt vs of Inl e \<Rightarrow> Inl e | Inr ss \<Rightarrow> Inr (s # ss)))"

text \<open>Truthiness, as \<^verbatim>\<open>if (x)\<close> and \<^verbatim>\<open>!x\<close> test it.\<close>

fun truthy :: "'n JsRuntime \<Rightarrow> 'n JsValue \<Rightarrow> bool" where
  "truthy rt JsUndefined = False"
| "truthy rt JsNull = False"
| "truthy rt (JsBoolean b) = b"
| "truthy rt (JsNumber n) = numberIsTruthy rt n"
| "truthy rt (JsBigInt i) = (i \<noteq> 0)"
| "truthy rt (JsString s) = (s \<noteq> [])"
| "truthy rt (JsSymbol d) = True"
| "truthy rt (JsFunction src) = True"
| "truthy rt (JsArray vs) = True"
| "truthy rt (JsObject props) = True"

text \<open>Property read \<^verbatim>\<open>obj.key\<close> on a plain object: a missing key reads \<^verbatim>\<open>undefined\<close>.\<close>

definition getProp :: "'n JsProps \<Rightarrow> string \<Rightarrow> 'n JsValue" where
  "getProp obj key = (case map_of obj key of None \<Rightarrow> JsUndefined | Some v \<Rightarrow> v)"

text \<open>
  Property write in an object literal after a spread (\<^verbatim>\<open>{...obj, key: v}\<close>): an existing key
  keeps its place and takes the new value, a new key is appended.
\<close>

fun setProp :: "'n JsProps \<Rightarrow> string \<Rightarrow> 'n JsValue \<Rightarrow> 'n JsProps" where
  "setProp [] key v = [(key, v)]"
| "setProp ((k, w) # rest) key v =
     (if k = key then (k, v) # rest else (k, w) # setProp rest key v)"

text \<open>\<^verbatim>\<open>delete obj[key]\<close>.\<close>

definition deleteProp :: "'n JsProps \<Rightarrow> string \<Rightarrow> 'n JsProps" where
  "deleteProp obj key = filter (\<lambda>(k, v). k \<noteq> key) obj"

text \<open>
  \<^verbatim>\<open>Object.entries(x)\<close> for an arbitrary value: it throws on \<^verbatim>\<open>undefined\<close> and \<^verbatim>\<open>null\<close>,
  enumerates the indices of an array and of the code units of a string, and finds no own
  enumerable property on the other primitives and on a function.
\<close>

definition indexKeys :: "nat \<Rightarrow> string list" where
  "indexKeys n = map natToString [0..<n]"

definition objectEntries :: "'n JsRuntime \<Rightarrow> 'n JsValue \<Rightarrow> JsError + 'n JsProps" where
  "objectEntries rt x =
     (case x of
        JsUndefined \<Rightarrow> Inl TypeError
      | JsNull \<Rightarrow> Inl TypeError
      | JsObject props \<Rightarrow> Inr props
      | JsArray vs \<Rightarrow> Inr (zip (indexKeys (length vs)) vs)
      | JsString s \<Rightarrow>
          Inr (zip (indexKeys (length (codeUnits rt s))) (map JsString (codeUnits rt s)))
      | _ \<Rightarrow> Inr [])"

section \<open>The options serializer\<close>

text \<open>
  \<^verbatim>\<open>toOptionsCode\<close> (create-deploy-index.ts, lines 214 to 245). The loop over
  \<^verbatim>\<open>Object.entries(options)\<close> is \<open>toOptionsEntries\<close>, which threads the accumulated
  \<^verbatim>\<open>optionsCode\<close>. An array element is rendered by \<open>arrayElementCode\<close>, the arrow function
  of line 219. A value whose \<^verbatim>\<open>typeof\<close> is \<^verbatim>\<open>'object'\<close> is a plain object or \<^verbatim>\<open>null\<close>; the
  recursive call enumerates it with \<^verbatim>\<open>Object.entries\<close>, which throws on \<^verbatim>\<open>null\<close>.
\<close>

definition arrayElementCode :: "'n JsRuntime \<Rightarrow> 'n JsValue \<Rightarrow> JsError + string" where
  "arrayElementCode rt v = (case v of JsString s \<Rightarrow> Inr (quoted s) | _ \<Rightarrow> toStringJs rt v)"

fun toOptionsCode :: "'n JsRuntime \<Rightarrow> 'n JsProps \<Rightarrow> JsError + string"
  and toOptionsEntries :: "'n JsRuntime \<Rightarrow> 'n JsProps \<Rightarrow> string \<Rightarrow> JsError + string" where
  "toOptionsCode rt options =
     (case toOptionsEntries rt options ''{'' of
        Inl e \<Rightarrow> Inl e
      | Inr optionsCode \<Rightarrow> Inr (optionsCode @ ''}''))"
| "toOptionsEntries rt [] optionsCode = Inr optionsCode"
| "toOptionsEntries rt ((key, JsArray vs) # rest) optionsCode =
     (case mapResult (arrayElementCode rt) vs of
        Inl e \<Rightarrow> Inl e
      | Inr parts \<Rightarrow>
          toOptionsEntries rt rest
            (optionsCode @ quoted key @ '': ['' @ joinWith '','' parts @ ''],''))"
| "toOptionsEntries rt ((key, JsObject props) # rest) optionsCode =
     (case toOptionsCode rt props of
        Inl e \<Rightarrow> Inl e
      | Inr code \<Rightarrow> toOptionsEntries rt rest (optionsCode @ quoted key @ '': '' @ code @ '',''))"
| "toOptionsEntries rt ((key, JsNull) # rest) optionsCode = Inl TypeError"
| "toOptionsEntries rt ((key, JsString s) # rest) optionsCode =
     toOptionsEntries rt rest (optionsCode @ quoted key @ '': '' @ quoted s @ '','')"
| "toOptionsEntries rt ((key, JsNumber n) # rest) optionsCode =
     toOptionsEntries rt rest (optionsCode @ quoted key @ '': '' @ numberToString rt n @ '','')"
| "toOptionsEntries rt ((key, JsBoolean b) # rest) optionsCode =
     toOptionsEntries rt rest
       (optionsCode @ quoted key @ '': '' @ (if b then ''true'' else ''false'') @ '','')"
| "toOptionsEntries rt ((key, JsUndefined) # rest) optionsCode =
     toOptionsEntries rt rest optionsCode"
| "toOptionsEntries rt ((key, JsBigInt i) # rest) optionsCode =
     toOptionsEntries rt rest optionsCode"
| "toOptionsEntries rt ((key, JsSymbol d) # rest) optionsCode =
     toOptionsEntries rt rest optionsCode"
| "toOptionsEntries rt ((key, JsFunction src) # rest) optionsCode =
     toOptionsEntries rt rest optionsCode"

section \<open>The entry-point synthesizer\<close>

text \<open>
  \<^verbatim>\<open>BuildFunctionData\<close> is a plain object (its type declaration is not part of the sources
  read here): the model is the list of its properties. Only the properties the code reads by
  name matter: \<^verbatim>\<open>functionName\<close>, \<^verbatim>\<open>absolutePath\<close>, \<^verbatim>\<open>region\<close>, \<^verbatim>\<open>deployFunction\<close>,
  \<^verbatim>\<open>rootFunctionBuilder\<close>, \<^verbatim>\<open>runtimeOptions\<close>, \<^verbatim>\<open>path\<close>, \<^verbatim>\<open>schedule\<close>, \<^verbatim>\<open>timeZone\<close>,
  \<^verbatim>\<open>topic\<close> and \<^verbatim>\<open>v2\<close>; all the others reach the output only through the v2 options literal.
\<close>

definition functionStart :: string where
  "functionStart = ''functionStart''"

definition nl :: string where
  "nl = [CHR 0x0A]"

definition tab :: string where
  "tab = [CHR 0x09]"

text \<open>\<^verbatim>\<open>s.replace(pat, rep)\<close> with a string pattern: the first occurrence only.\<close>

fun replaceFirst :: "string \<Rightarrow> string \<Rightarrow> string \<Rightarrow> string" where
  "replaceFirst pat rep [] = (if pat = [] then rep else [])"
| "replaceFirst pat rep (c # cs) =
     (if take (length pat) (c # cs) = pat then rep @ drop (length pat) (c # cs)
      else c # replaceFirst pat rep cs)"

text \<open>
  \<^verbatim>\<open>absolutePath.replace('.ts', '')\<close> (lines 48 and 70): the method exists on a string only,
  the call throws a TypeError on every other value.
\<close>

definition pathWithoutSuffix :: "'n JsValue \<Rightarrow> JsError + string" where
  "pathWithoutSuffix absolutePath =
     (case absolutePath of
        JsString s \<Rightarrow> Inr (replaceFirst ''.ts'' [] s)
      | _ \<Rightarrow> Inl TypeError)"

text \<open>\<^verbatim>\<open>throw new Error(`Unknown function type: ${deployFunction}`)\<close> (lines 141 and 180).\<close>

definition unknownFunctionType :: "'n JsRuntime \<Rightarrow> 'n JsValue \<Rightarrow> JsError + string" where
  "unknownFunctionType rt deployFunction =
     andThen (toStringJs rt deployFunction) (\<lambda>s. Inl (Error (''Unknown function type: '' @ s)))"

text \<open>\<^verbatim>\<open>toFunctionCodeType\<close> (lines 145 to 182): a \<^verbatim>\<open>switch\<close> with strict equality.\<close>

definition toFunctionCodeType :: "'n JsRuntime \<Rightarrow> 'n JsValue \<Rightarrow> JsError + string" where
  "toFunctionCodeType rt deployFunction =
     (if deployFunction = JsString ''onCall'' then Inr ''onCall''
      else if deployFunction = JsString ''onRequest'' then Inr ''onRequest''
      else if deployFunction = JsString ''onCreate'' then Inr ''onCreate''
      else if deployFunction = JsString ''onDelete'' then Inr ''onDelete''
      else if deployFunction = JsString ''onUpdate'' then Inr ''onUpdate''
      else if deployFunction = JsString ''onWrite'' then Inr ''onWrite''
      else if deployFunction = JsString ''topic'' then Inr ''topic''
      else if deployFunction = JsString ''schedule'' then Inr ''schedule''
      else if deployFunction = JsString ''onObjectArchive'' then Inr ''onArchive''
      else if deployFunction = JsString ''onObjectDelete'' then Inr ''onDelete''
      else if deployFunction = JsString ''onObjectFinalize'' then Inr ''onFinalize''
      else if deployFunction = JsString ''onObjectMetadataUpdate'' then Inr ''onMetadataUpdate''
      else if deployFunction = JsString ''onRefCreate'' then Inr ''onCreate''
      else if deployFunction = JsString ''onRefDelete'' then Inr ''onDelete''
      else if deployFunction = JsString ''onRefUpdate'' then Inr ''onUpdate''
      else if deployFunction = JsString ''onRefWrite'' then Inr ''onWrite''
      else unknownFunctionType rt deployFunction)"

text \<open>
  \<^verbatim>\<open>getScheduleDeployCode\<close> (lines 184 to 199) and \<^verbatim>\<open>getTopicDeployCode\<close> (lines 201 to
  212). The parameter is optional (\<^verbatim>\<open>deployOptions?: BaseFunctionOptions\<close>); \<open>None\<close> is the
  absent argument. The fields are read by destructuring and interpolated as they are.
\<close>

definition getScheduleDeployCode ::
    "'n JsRuntime \<Rightarrow> 'n JsProps option \<Rightarrow> JsError + string" where
  "getScheduleDeployCode rt deployOptions =
     (case deployOptions of
        None \<Rightarrow> Inl (Error ''Pubsub deploy options are required'')
      | Some opts \<Rightarrow>
          (let timeZone = getProp opts ''timeZone'';
               schedule = getProp opts ''schedule''
           in andThen (toStringJs rt schedule) (\<lambda>s.
              andThen
                (if truthy rt timeZone
                 then andThen (toStringJs rt timeZone) (\<lambda>tz.
                        Inr (''schedule('' @ quoted s @ '').'' @ ''timeZone('' @ quoted tz @ '').''))
                 else Inr (''schedule('' @ quoted s @ '').''))
                (\<lambda>pubsubCode. Inr (pubsubCode @ ''onRun('' @ functionStart @ '')'')))))"

definition getTopicDeployCode ::
    "'n JsRuntime \<Rightarrow> 'n JsProps option \<Rightarrow> JsError + string" where
  "getTopicDeployCode rt deployOptions =
     (case deployOptions of
        None \<Rightarrow> Inl (Error ''Pubsub deploy options are required'')
      | Some opts \<Rightarrow>
          (let topic = getProp opts ''topic''
           in andThen (toStringJs rt topic) (\<lambda>t.
              Inr (''topic('' @ quoted t @ '').'' @ ''onRun('' @ functionStart @ '')''))))"

text \<open>\<^verbatim>\<open>toEndCode\<close> (lines 111 to 143).\<close>

definition toEndCode :: "'n JsRuntime \<Rightarrow> 'n JsProps \<Rightarrow> JsError + string" where
  "toEndCode rt deployFileData =
     (let deployFunction = getProp deployFileData ''deployFunction'';
          path = getProp deployFileData ''path''
      in andThen (toFunctionCodeType rt deployFunction) (\<lambda>functionCode.
         if deployFunction \<in> set [JsString ''onCall'', JsString ''onRequest'']
         then Inr (functionCode @ ''('' @ functionStart @ '');'')
         else if deployFunction \<in> set [JsString ''onCreate'', JsString ''onDelete'',
                   JsString ''onUpdate'', JsString ''onWrite'']
         then andThen (toStringJs rt path) (\<lambda>p.
                Inr (''document('' @ quoted p @ '').'' @ functionCode @ ''('' @ functionStart @ '');''))
         else if deployFunction \<in> set [JsString ''onRefCreate'', JsString ''onRefDelete'',
                   JsString ''onRefUpdate'', JsString ''onRefWrite'']
         then andThen (toStringJs rt path) (\<lambda>p.
                Inr (''ref('' @ quoted p @ '').'' @ functionCode @ ''('' @ functionStart @ '');''))
         else if deployFunction = JsString ''topic''
         then getTopicDeployCode rt (Some deployFileData)
         else if deployFunction = JsString ''schedule''
         then getScheduleDeployCode rt (Some deployFileData)
         else if deployFunction \<in> set [JsString ''onObjectArchive'', JsString ''onObjectDelete'',
                   JsString ''onObjectFinalize'', JsString ''onObjectMetadataUpdate'']
         then Inr (''object().'' @ functionCode @ ''('' @ functionStart @ '');'')
         else unknownFunctionType rt deployFunction))"

text \<open>\<^verbatim>\<open>getRunWithCode\<close> (lines 103 to 109) and \<^verbatim>\<open>getRootFunctionCode\<close> (lines 91 to 101).
  The latter returns \<^verbatim>\<open>rootFunctionBuilder\<close> itself when there are no runtime options.\<close>

definition getRunWithCode :: "'n JsRuntime \<Rightarrow> 'n JsValue \<Rightarrow> JsError + string" where
  "getRunWithCode rt runtimeOptions =
     andThen (objectEntries rt runtimeOptions) (\<lambda>entries.
     andThen (toOptionsCode rt entries) (\<lambda>optionsCode.
     Inr (''runWith('' @ optionsCode @ '')'')))"

definition getRootFunctionCode :: "'n JsRuntime \<Rightarrow> 'n JsProps \<Rightarrow> JsError + 'n JsValue" where
  "getRootFunctionCode rt buildFunctionData =
     (let rootFunctionBuilder = getProp buildFunctionData ''rootFunctionBuilder'';
          runtimeOptions = getProp buildFunctionData ''runtimeOptions''
      in if \<not> truthy rt runtimeOptions then Inr rootFunctionBuilder
         else andThen (getRunWithCode rt runtimeOptions) (\<lambda>runWithCode.
              andThen (toStringJs rt rootFunctionBuilder) (\<lambda>builder.
              Inr (JsString (runWithCode @ ''.'' @ builder)))))"

text \<open>\<^verbatim>\<open>removeAllOtherOptions\<close> (lines 247 to 293) and \<^verbatim>\<open>getV2Options\<close> (lines 83 to 89).\<close>

definition keysToDelete :: "string list" where
  "keysToDelete =
     [''absolutePath'', ''alias'', ''assets'', ''checksum'', ''cloudCacheFileName'',
      ''defaultRegion'', ''deployFunction'', ''dryRun'', ''environmentFileCode'', ''external'',
      ''firebaseProjectId'', ''flavor'', ''force'', ''functionName'', ''functionsDirectory'',
      ''only'', ''outputDirectory'', ''outputRoot'', ''packageManager'', ''path'',
      ''projectRoot'', ''relativeDeployFilePath'', ''rootFunctionBuilder'', ''startTime'',
      ''temporaryDirectory'', ''tsConfig'', ''validate'', ''workspaceRoot'']"

definition removeAllOtherOptions :: "'n JsProps \<Rightarrow> 'n JsProps" where
  "removeAllOtherOptions buildFunctionData =
     (let options = setProp buildFunctionData ''region'' (getProp buildFunctionData ''region'')
      in foldl deleteProp (deleteProp options ''v2'') keysToDelete)"

definition getV2Options :: "'n JsRuntime \<Rightarrow> 'n JsProps \<Rightarrow> JsError + string" where
  "getV2Options rt options = toOptionsCode rt (removeAllOtherOptions options)"

text \<open>\<^verbatim>\<open>toDeployIndexV1Code\<close> (lines 45 to 58): the chained-call form.\<close>

definition toDeployIndexV1Code :: "'n JsRuntime \<Rightarrow> 'n JsProps \<Rightarrow> JsError + string" where
  "toDeployIndexV1Code rt buildFunctionData =
     (let functionName = getProp buildFunctionData ''functionName'';
          absolutePath = getProp buildFunctionData ''absolutePath'';
          region = getProp buildFunctionData ''region''
      in andThen (pathWithoutSuffix absolutePath) (\<lambda>pws.
         andThen (toStringJs rt functionName) (\<lambda>name.
         andThen (toStringJs rt region) (\<lambda>reg.
         andThen (getRootFunctionCode rt buildFunctionData) (\<lambda>rootValue.
         andThen (toStringJs rt rootValue) (\<lambda>root.
         andThen (toEndCode rt buildFunctionData) (\<lambda>endCode.
         Inr (nl @ tab @ tab @ ''import { region } from '' @ quoted ''firebase-functions'' @ '';''
              @ nl @ tab @ tab @ ''import '' @ functionStart @ '' from '' @ quoted pws @ '';''
              @ nl @ tab @ tab @ ''export const '' @ name @ '' = region('' @ quoted reg @ '').''
              @ root @ ''.'' @ endCode
              @ nl @ tab))))))))"

text \<open>\<^verbatim>\<open>toDeployV2IndexCode\<close> (lines 60 to 81): the direct call of the https binding.\<close>

definition invalidDeployFunction :: "'n JsRuntime \<Rightarrow> 'n JsValue \<Rightarrow> JsError + string" where
  "invalidDeployFunction rt deployFunction =
     andThen (toStringJs rt deployFunction) (\<lambda>s.
       Inl (Error (''Invalid deploy function '' @ s @ '' for https v2'')))"

definition toDeployV2IndexCode :: "'n JsRuntime \<Rightarrow> 'n JsProps \<Rightarrow> JsError + string" where
  "toDeployV2IndexCode rt buildFunctionData =
     (let functionName = getProp buildFunctionData ''functionName'';
          absolutePath = getProp buildFunctionData ''absolutePath'';
          deployFunction = getProp buildFunctionData ''deployFunction''
      in if deployFunction \<noteq> JsString ''onRequest'' \<and> deployFunction \<noteq> JsString ''onCall''
         then invalidDeployFunction rt deployFunction
         else andThen (pathWithoutSuffix absolutePath) (\<lambda>pws.
              andThen (toStringJs rt deployFunction) (\<lambda>df.
              andThen (toStringJs rt functionName) (\<lambda>name.
              andThen (getV2Options rt buildFunctionData) (\<lambda>optionsCode.
              Inr (nl @ tab @ tab @ ''import { '' @ df @ '' } from ''
                     @ quoted ''firebase-functions/v2/https'' @ '';''
                   @ nl @ tab @ tab @ ''import '' @ functionStart @ '' from '' @ quoted pws @ '';''
                   @ nl @ tab @ tab @ ''export const '' @ name @ '' = '' @ df @ ''(''
                   @ nl @ tab @ tab @ tab @ tab @ ''('' @ optionsCode @ ''),''
                   @ nl @ tab @ tab @ tab @ tab @ functionStart
                   @ nl @ tab @ tab @ tab @ '');''
                   @ nl @ tab))))))"

text \<open>\<^verbatim>\<open>toDeployIndexCode\<close> (lines 35 to 43).\<close>

definition toDeployIndexCode :: "'n JsRuntime \<Rightarrow> 'n JsProps \<Rightarrow> JsError + string" where
  "toDeployIndexCode rt buildFunctionData =
     (if truthy rt (getProp buildFunctionData ''v2'')
      then toDeployV2IndexCode rt buildFunctionData
      else toDeployIndexV1Code rt buildFunctionData)"

section \<open>The local checksum\<close>

text \<open>
  \<^verbatim>\<open>checksum.ts\<close> reads six fields of \<^verbatim>\<open>DeployFunctionData\<close> by name and writes one of them
  (\<^verbatim>\<open>checksum\<close>). The record is extensible: every other field of the object lives in its
  \<open>more\<close> part. An optional field is an \<open>option\<close>, \<open>None\<close> being \<^verbatim>\<open>undefined\<close>.
\<close>

record DeployFunctionData =
  functionName :: string
  outputRoot :: string
  environment :: "(string \<times> string option) list option"
  hasLoggerFile :: "bool option"
  checksum :: "string option"
  force :: "bool option"

text \<open>
  What the module takes from Node: the file system, \<^verbatim>\<open>path.join\<close>, the MD5 digest of
  \<^verbatim>\<open>crypto.createHash\<close> rendered in hex, and \<^verbatim>\<open>String.prototype.localeCompare\<close>. Reading a
  file and hashing may throw.
\<close>

record Host =
  readFile :: "string \<Rightarrow> JsError + string"
  join :: "string \<Rightarrow> string \<Rightarrow> string"
  md5Hex :: "string \<Rightarrow> JsError + string"
  localeCompare :: "string \<Rightarrow> string \<Rightarrow> int"

text \<open>The calls of \<^verbatim>\<open>logger\<close>, in order; the colours of \<^verbatim>\<open>chalk\<close> are left out.\<close>

datatype LogEvent =
    LogInfo string
  | LogWarn string
  | LogDebug JsError
  | LogError string JsError

definition checksumFileName :: string where
  "checksumFileName = ''checksum.md5''"

definition flagSet :: "bool option \<Rightarrow> bool" where
  "flagSet b = (b = Some True)"

text \<open>
  \<^verbatim>\<open>Array.prototype.sort\<close> with a comparator is stable; for a consistent comparator its
  result is the stable insertion sort below.
\<close>

fun insertEntry ::
    "(string \<Rightarrow> string \<Rightarrow> int) \<Rightarrow> string \<times> 'v \<Rightarrow> (string \<times> 'v) list \<Rightarrow> (string \<times> 'v) list" where
  "insertEntry cmp x [] = [x]"
| "insertEntry cmp x (y # ys) =
     (if cmp (fst x) (fst y) \<le> 0 then x # y # ys else y # insertEntry cmp x ys)"

definition sortEntries ::
    "(string \<Rightarrow> string \<Rightarrow> int) \<Rightarrow> (string \<times> 'v) list \<Rightarrow> (string \<times> 'v) list" where
  "sortEntries cmp entries = foldr (insertEntry cmp) entries []"

text \<open>\<^verbatim>\<open>recordToString\<close> (checksum.ts, lines 307 to 312 of the listing).\<close>

definition entryText :: "string \<times> string option \<Rightarrow> string" where
  "entryText e = fst e @ ''='' @ (case snd e of None \<Rightarrow> ''undefined'' | Some v \<Rightarrow> v)"

definition recordToString :: "Host \<Rightarrow> (string \<times> string option) list \<Rightarrow> string" where
  "recordToString h record = concat (map entryText (sortEntries (localeCompare h) record))"

text \<open>\<^verbatim>\<open>generateChecksum\<close> (lines 371 to 373) and \<^verbatim>\<open>getCachedChecksum\<close> (lines 375 to 384).\<close>

definition generateChecksum :: "Host \<Rightarrow> string \<Rightarrow> JsError + string" where
  "generateChecksum h code = md5Hex h code"

definition getCachedChecksum :: "Host \<Rightarrow> string \<Rightarrow> LogEvent list \<times> string option" where
  "getCachedChecksum h root =
     (case readFile h (join h root checksumFileName) of
        Inl e \<Rightarrow> ([LogDebug e], None)
      | Inr text \<Rightarrow> ([], Some text))"

text \<open>
  \<^verbatim>\<open>checkForChanges\<close> (lines 320 to 369). \<open>checkForChangesBody\<close> is the \<^verbatim>\<open>try\<close> block: it
  returns the log written so far and either the exception that left the block or the value
  returned. \<open>environmentString\<close> is \<^verbatim>\<open>environment && recordToString(environment)\<close> as the
  string concatenation of line 341 sees it. \<open>cachedChecksum\<close> is line 339 and 340.
\<close>

definition loggerCode ::
    "Host \<Rightarrow> 'z DeployFunctionData_scheme \<Rightarrow> string \<Rightarrow> LogEvent list \<times> string" where
  "loggerCode h deployFunction newCode =
     (if flagSet (hasLoggerFile deployFunction)
      then (case readFile h (join h (outputRoot deployFunction) ''src/logger.js'') of
              Inl e \<Rightarrow> ([LogError ''getLoggerCode'' e], newCode)
            | Inr code \<Rightarrow> ([], newCode @ code))
      else ([], newCode))"

definition environmentString :: "Host \<Rightarrow> 'z DeployFunctionData_scheme \<Rightarrow> string" where
  "environmentString h deployFunction =
     (case environment deployFunction of
        None \<Rightarrow> ''undefined''
      | Some env \<Rightarrow> recordToString h env)"

definition cachedChecksum ::
    "Host \<Rightarrow> 'z DeployFunctionData_scheme \<Rightarrow> LogEvent list \<times> string option" where
  "cachedChecksum h deployFunction =
     (case checksum deployFunction of
        Some c \<Rightarrow> ([], Some c)
      | None \<Rightarrow> getCachedChecksum h (outputRoot deployFunction))"

definition unchangedNotice :: "'z DeployFunctionData_scheme \<Rightarrow> LogEvent" where
  "unchangedNotice deployFunction =
     LogInfo (functionName deployFunction @ '' has not changed, skipping deployment'')"

definition checkForChangesBody ::
    "Host \<Rightarrow> 'z DeployFunctionData_scheme \<Rightarrow>
       LogEvent list \<times> (JsError + 'z DeployFunctionData_scheme option)" where
  "checkForChangesBody h deployFunction =
     (case readFile h (join h (outputRoot deployFunction) ''src/index.js'') of
        Inl e \<Rightarrow> ([], Inl e)
      | Inr indexCode \<Rightarrow>
          (let (log1, newCode) = loggerCode h deployFunction indexCode;
               (log2, cached) = cachedChecksum h deployFunction
           in case generateChecksum h (newCode @ environmentString h deployFunction) of
                Inl e \<Rightarrow> (log1 @ log2, Inl e)
              | Inr newChecksum \<Rightarrow>
                  if \<not> flagSet (force deployFunction)
                     \<and> (case cached of None \<Rightarrow> False | Some c \<Rightarrow> c \<noteq> [] \<and> c = newChecksum)
                  then (log1 @ log2 @ [unchangedNotice deployFunction], Inr None)
                  else (log1 @ log2, Inr (Some (deployFunction\<lparr>checksum := Some newChecksum\<rparr>)))))"

definition changeCheckWarning :: "'z DeployFunctionData_scheme \<Rightarrow> LogEvent" where
  "changeCheckWarning deployFunction =
     LogWarn (''Error checking for local changes with '' @ functionName deployFunction @ ''.'')"

definition checkForChanges ::
    "Host \<Rightarrow> 'z DeployFunctionData_scheme \<Rightarrow>
       LogEvent list \<times> 'z DeployFunctionData_scheme option" where
  "checkForChanges h deployFunction =
     (case checkForChangesBody h deployFunction of
        (log, Inl e) \<Rightarrow> (log @ [changeCheckWarning deployFunction, LogDebug e], Some deployFunction)
      | (log, Inr result) \<Rightarrow> (log, result))"

text \<open>
  \<^verbatim>\<open>cacheChecksumLocal\<close> (lines 386 to 399) reads \<^verbatim>\<open>outputRoot\<close> and \<^verbatim>\<open>checksum\<close> and
  writes a file; its result here is the write it asks for, if any.
\<close>

definition cacheChecksumLocal ::
    "Host \<Rightarrow> 'z DeployFunctionData_scheme \<Rightarrow> (string \<times> string) option" where
  "cacheChecksumLocal h deployFunction =
     (case checksum deployFunction of
        None \<Rightarrow> None
      | Some c \<Rightarrow> if c = [] then None
                  else Some (join h (outputRoot deployFunction) checksumFileName, c))"

section \<open>The executor: merging the online checksum, deploying, retrying\<close>

text \<open>
  The loop of \<^verbatim>\<open>executor\<close> over \<^verbatim>\<open>Object.entries(onlineChecksum)\<close> (lines 384 to 392 of the
  listing): the first buildable file with the entry's function name gets the entry's
  checksum, in place.
\<close>

fun setChecksumOfFirst ::
    "string \<Rightarrow> string \<Rightarrow> 'z DeployFunctionData_scheme list \<Rightarrow> 'z DeployFunctionData_scheme list" where
  "setChecksumOfFirst name c [] = []"
| "setChecksumOfFirst name c (file # files) =
     (if functionName file = name then file\<lparr>checksum := Some c\<rparr> # files
      else file # setChecksumOfFirst name c files)"

definition mergeOnlineChecksum ::
    "(string \<times> string) list option \<Rightarrow> 'z DeployFunctionData_scheme list \<Rightarrow>
       'z DeployFunctionData_scheme list" where
  "mergeOnlineChecksum onlineChecksum buildableFiles =
     (case onlineChecksum of
        None \<Rightarrow> buildableFiles
      | Some entries \<Rightarrow>
          foldl (\<lambda>files (name, c). setChecksumOfFirst name c files) buildableFiles entries)"

text \<open>
  \<^verbatim>\<open>deployFunction\<close> (\<^verbatim>\<open>./utils/deploy-function\<close>) is the external deploy step: it resolves
  to the function's data on success and to \<^verbatim>\<open>undefined\<close> on failure. Its outcome may differ
  from one round to the next, so the model takes it as a parameter indexed by the round.
  The limiter bounds how many calls are in flight and does not change what
  \<^verbatim>\<open>Promise.all\<close> collects; it is left out. \<open>dispatched\<close> records the list handed to each
  retry round.
\<close>

record 'z RetryState =
  deployedFiles :: "'z DeployFunctionData_scheme list"
  failedFunctions :: "'z DeployFunctionData_scheme list"
  dispatched :: "'z DeployFunctionData_scheme list list"

record DeployExecutorOptions =
  retryAmount :: "int option"
  concurrency :: "int option"

definition stillFailing ::
    "'z DeployFunctionData_scheme list \<Rightarrow> 'z DeployFunctionData_scheme list \<Rightarrow>
       'z DeployFunctionData_scheme list" where
  "stillFailing redeployedFiles failed =
     filter (\<lambda>deployableFunction.
        find (\<lambda>deployedFile. functionName deployedFile = functionName deployableFunction)
          redeployedFiles = None) failed"

text \<open>The \<^verbatim>\<open>for\<close> loop of \<^verbatim>\<open>redeployFailedFunctions\<close> (lines 218 to 246), from round \<open>i\<close> on.\<close>

function redeployLoop ::
    "(nat \<Rightarrow> 'z DeployFunctionData_scheme \<Rightarrow> 'z DeployFunctionData_scheme option) \<Rightarrow>
       int \<Rightarrow> nat \<Rightarrow> 'z RetryState \<Rightarrow> 'z RetryState" where
  "redeployLoop deployFunction amount i st =
     (if int i < amount then
        (let redeployedFiles = List.map_filter (deployFunction i) (failedFunctions st);
             st1 = st\<lparr>dispatched := dispatched st @ [failedFunctions st]\<rparr>
         in if length redeployedFiles = 0 then redeployLoop deployFunction amount (Suc i) st1
            else
              (let st2 = st1\<lparr>failedFunctions := stillFailing redeployedFiles (failedFunctions st),
                               deployedFiles := deployedFiles st @ redeployedFiles\<rparr>
               in if length (failedFunctions st2) = 0 then st2
                  else redeployLoop deployFunction amount (Suc i) st2))
      else st)"
  by pat_completeness auto
termination
  by (relation "measure (\<lambda>(deployFunction, amount, i, st). nat (amount - int i))") auto

declare redeployLoop.simps [simp del]

text \<open>\<^verbatim>\<open>redeployFailedFunctions\<close> (lines 204 to 247).\<close>

definition redeployFailedFunctions ::
    "(nat \<Rightarrow> 'z DeployFunctionData_scheme \<Rightarrow> 'z DeployFunctionData_scheme option) \<Rightarrow>
       'z DeployFunctionData_scheme list \<Rightarrow> 'z DeployFunctionData_scheme list \<Rightarrow>
       DeployExecutorOptions \<Rightarrow> 'z RetryState" where
  "redeployFailedFunctions deployFunction deployed failed options =
     (let st = \<lparr>deployedFiles = deployed, failedFunctions = failed, dispatched = []\<rparr>
      in case retryAmount options of
           None \<Rightarrow> st
         | Some amount \<Rightarrow> if amount = 0 then st else redeployLoop deployFunction amount 0 st)"

text \<open>
  The deployment part of \<^verbatim>\<open>executor\<close> (lines 405 to 434 of the listing). Round 0 of the
  deploy step is the first pass, round \<open>Suc i\<close> is retry round \<open>i\<close>. The result keeps the two
  arrays of the executor as they are after the call: \<^verbatim>\<open>deployableFunctions\<close>, which the
  callee may push onto, and \<^verbatim>\<open>deployedFiles\<close>, which the callee only reads (it rebinds its
  own parameter).
\<close>

record 'z DeployOutcome =
  deployableFunctionsAfter :: "'z DeployFunctionData_scheme list"
  deployedFilesAfter :: "'z DeployFunctionData_scheme list"
  retryRounds :: "'z DeployFunctionData_scheme list list"

definition executorDeploy ::
    "(nat \<Rightarrow> 'z DeployFunctionData_scheme \<Rightarrow> 'z DeployFunctionData_scheme option) \<Rightarrow>
       DeployExecutorOptions \<Rightarrow> 'z DeployFunctionData_scheme list \<Rightarrow> 'z DeployOutcome" where
  "executorDeploy deployFunction options deployableFunctions =
     (let deployableFunctionsAmount = length deployableFunctions;
          deployed = List.map_filter (deployFunction 0) deployableFunctions
      in if deployableFunctionsAmount \<noteq> length deployed
         then (let st = redeployFailedFunctions (\<lambda>i. deployFunction (Suc i))
                          deployableFunctions deployed options
               in \<lparr>deployableFunctionsAfter = deployedFiles st,
                   deployedFilesAfter = deployed,
                   retryRounds = dispatched st\<rparr>)
         else \<lparr>deployableFunctionsAfter = deployableFunctions,
               deployedFilesAfter = deployed,
               retryRounds = []\<rparr>)"

text \<open>
  Modelled from the spec: the external collaborator that deploys one function
  (\<^verbatim>\<open>./utils/deploy-function\<close>, which is not part of the listing). Section 4.3: each deploy
  operation "returns either the spec (success) or nothing (failure, already logged by the
  collaborator)". Which calls succeed is decided outside the program, so it is a
  parameter, by round and function name.
\<close>

definition deployOneFunction ::
    "(nat \<Rightarrow> string \<Rightarrow> bool) \<Rightarrow> nat \<Rightarrow> 'z DeployFunctionData_scheme \<Rightarrow>
       'z DeployFunctionData_scheme option" where
  "deployOneFunction succeeds round deployableFunction =
     (if succeeds round (functionName deployableFunction) then Some deployableFunction
      else None)"

text \<open>
  \<^verbatim>\<open>updateOnlineChecksum\<close> (lines 66 to 117): the mapping from function name to checksum that
  is handed to the update hook, if any. The filter of lines 70 to 72 and of line 438 is
  \<open>checksumSet\<close>; the object spread of lines 89 to 95 is \<open>setEntry\<close>, with the entries in
  creation order. After the filter every file has a checksum, which the cast of line 93
  takes for granted.
\<close>

definition checksumSet :: "'z DeployFunctionData_scheme \<Rightarrow> bool" where
  "checksumSet deployableFunction =
     (case checksum deployableFunction of None \<Rightarrow> False | Some c \<Rightarrow> c \<noteq> [])"

fun setEntry :: "(string \<times> string) list \<Rightarrow> string \<Rightarrow> string \<Rightarrow> (string \<times> string) list" where
  "setEntry [] k v = [(k, v)]"
| "setEntry ((k', v') # rest) k v =
     (if k' = k then (k, v) # rest else (k', v') # setEntry rest k v)"

definition updateOnlineChecksum ::
    "'z DeployFunctionData_scheme list \<Rightarrow> (string \<times> string) list option" where
  "updateOnlineChecksum deployed =
     (let filesWithChecksum = filter checksumSet deployed
      in case filesWithChecksum of
           [] \<Rightarrow> None
         | firstDeployedFile # others \<Rightarrow>
             Some (foldl (\<lambda>acc f. case checksum f of
                                     None \<Rightarrow> acc
                                   | Some c \<Rightarrow> setEntry acc (functionName f) c)
                     [] filesWithChecksum))"

text \<open>
  \<^verbatim>\<open>executor\<close> from the merge of the online checksum to the persistence of the checksums
  (lines 384 to 448 of the listing). The online checksum that was fetched and the deploy
  step are parameters. \<^verbatim>\<open>buildFunction\<close> (lines 397 to 399) is the external bundler; what
  it resolves to is overwritten at line 401, and the host is the file system as the build
  leaves it. \<open>checkForChanges\<close> assigns the checksum of the object it is given, so the
  buildable files themselves carry the new checksum afterwards: \<open>buildableFilesAfter\<close>.
  \<open>localWrites\<close> are the files \<open>cacheChecksumLocal\<close> writes, \<open>onlineUpdate\<close> is the mapping
  \<open>updateOnlineChecksum\<close> hands over.
\<close>

record 'z ExecutorRun =
  buildableFilesAfter :: "'z DeployFunctionData_scheme list"
  deployOutcome :: "'z DeployOutcome"
  deployedFilesToUpdateChecksum :: "'z DeployFunctionData_scheme list"
  localWrites :: "(string \<times> string) list"
  onlineUpdate :: "(string \<times> string) list option"

definition executor ::
    "Host \<Rightarrow> (nat \<Rightarrow> 'z DeployFunctionData_scheme \<Rightarrow> 'z DeployFunctionData_scheme option) \<Rightarrow>
       DeployExecutorOptions \<Rightarrow> (string \<times> string) list option \<Rightarrow>
       'z DeployFunctionData_scheme list \<Rightarrow> 'z ExecutorRun" where
  "executor h deployFunction options onlineChecksum buildableFiles =
     (let merged = mergeOnlineChecksum onlineChecksum buildableFiles;
          deployableFunctions = List.map_filter (\<lambda>f. snd (checkForChanges h f)) merged;
          outcome = executorDeploy deployFunction options deployableFunctions;
          toUpdate = filter checksumSet (deployedFilesAfter outcome)
      in \<lparr>buildableFilesAfter =
            map (\<lambda>f. case snd (checkForChanges h f) of None \<Rightarrow> f | Some f' \<Rightarrow> f') merged,
          deployOutcome = outcome,
          deployedFilesToUpdateChecksum = toUpdate,
          localWrites = List.map_filter (cacheChecksumLocal h) toUpdate,
          onlineUpdate = updateOnlineChecksum toUpdate\<rparr>)"

section \<open>The specification's tables, and concrete inputs\<close>

text \<open>
  The closed set of trigger kinds and the kind-to-verb table of the specification
  (section 4.1), written down as the specification gives them, to be compared with
  \<open>toEndCode\<close>.
\<close>

definition triggerKinds :: "string list" where
  "triggerKinds =
     [''onCall'', ''onRequest'', ''onCreate'', ''onUpdate'', ''onDelete'', ''onWrite'',
      ''onRefCreate'', ''onRefUpdate'', ''onRefDelete'', ''onRefWrite'',
      ''onObjectArchive'', ''onObjectDelete'', ''onObjectFinalize'', ''onObjectMetadataUpdate'',
      ''schedule'', ''topic'']"

definition verbTable :: "(string \<times> string) list" where
  "verbTable =
     [(''onCall'', ''onCall''), (''onRequest'', ''onRequest''),
      (''onCreate'', ''onCreate''), (''onRefCreate'', ''onCreate''),
      (''onUpdate'', ''onUpdate''), (''onRefUpdate'', ''onUpdate''),
      (''onDelete'', ''onDelete''), (''onRefDelete'', ''onDelete''),
      (''onWrite'', ''onWrite''), (''onRefWrite'', ''onWrite''),
      (''onObjectArchive'', ''onArchive''), (''onObjectDelete'', ''onDelete''),
      (''onObjectFinalize'', ''onFinalize''), (''onObjectMetadataUpdate'', ''onMetadataUpdate''),
      (''schedule'', ''onRun''), (''topic'', ''onRun'')]"

definition specVerb :: "string \<Rightarrow> string" where
  "specVerb kind = (case map_of verbTable kind of None \<Rightarrow> [] | Some verb \<Rightarrow> verb)"

text \<open>
  The rendering of one option entry, case by case on the type of its value: what one turn of
  the loop of \<open>toOptionsCode\<close> adds to the literal.
\<close>

definition specEntryCode :: "'n JsRuntime \<Rightarrow> string \<times> 'n JsValue \<Rightarrow> JsError + string" where
  "specEntryCode rt entry =
     (case snd entry of
        JsString s \<Rightarrow> Inr (quoted (fst entry) @ '': '' @ quoted s @ '','')
      | JsNumber n \<Rightarrow> Inr (quoted (fst entry) @ '': '' @ numberToString rt n @ '','')
      | JsBoolean b \<Rightarrow>
          Inr (quoted (fst entry) @ '': '' @ (if b then ''true'' else ''false'') @ '','')
      | JsArray vs \<Rightarrow>
          andThen (mapResult (arrayElementCode rt) vs) (\<lambda>parts.
            Inr (quoted (fst entry) @ '': ['' @ joinWith '','' parts @ ''],''))
      | JsObject props \<Rightarrow>
          andThen (toOptionsCode rt props) (\<lambda>code.
            Inr (quoted (fst entry) @ '': '' @ code @ '',''))
      | JsNull \<Rightarrow> Inl TypeError
      | _ \<Rightarrow> Inr [])"

text \<open>
  A comparator is a total order on a list of keys when it is total and transitive there and
  ties only a key with itself.
\<close>

definition totalOrderOn :: "(string \<Rightarrow> string \<Rightarrow> int) \<Rightarrow> string list \<Rightarrow> bool" where
  "totalOrderOn cmp keys =
     ((\<forall>a \<in> set keys. \<forall>b \<in> set keys. cmp a b \<le> 0 \<or> cmp b a \<le> 0)
      \<and> (\<forall>a \<in> set keys. \<forall>b \<in> set keys. \<forall>c \<in> set keys.
            cmp a b \<le> 0 \<longrightarrow> cmp b c \<le> 0 \<longrightarrow> cmp a c \<le> 0)
      \<and> (\<forall>a \<in> set keys. \<forall>b \<in> set keys. cmp a b \<le> 0 \<longrightarrow> cmp b a \<le> 0 \<longrightarrow> a = b))"

text \<open>
  Concrete inputs on which the model is run. \<open>exampleRuntime\<close> has integers for numbers;
  it is run on ASCII text and on objects without \<^verbatim>\<open>toString\<close> and \<^verbatim>\<open>valueOf\<close> only.
  \<open>exampleHost\<close> has two files, joins paths with a slash, compares strings by code unit and
  uses an injective stand-in for the digest. \<open>canonicalCompare\<close> is a comparator that, as
  the language standard requires of \<^verbatim>\<open>localeCompare\<close>, returns 0 for canonically equivalent
  strings: the letter e with an acute accent written as one code point (bytes C3 A9) and
  as e followed by the combining accent (bytes 65 CC 81). \<open>tieHost\<close> compares with it;
  \<open>cachedHost\<close> has a local checksum file, \<open>brokenLoggerHost\<close> cannot read the logger file
  and \<open>brokenDigestHost\<close> cannot hash.
\<close>

definition exampleRuntime :: "int JsRuntime" where
  "exampleRuntime =
     \<lparr>numberToString = bigintToString,
      numberIsTruthy = (\<lambda>n. n \<noteq> 0),
      objectToPrimitive = (\<lambda>props. Inl TypeError),
      codeUnits = map (\<lambda>c. [c])\<rparr>"

fun codeUnitCompare :: "string \<Rightarrow> string \<Rightarrow> int" where
  "codeUnitCompare [] [] = 0"
| "codeUnitCompare [] (y # ys) = - 1"
| "codeUnitCompare (x # xs) [] = 1"
| "codeUnitCompare (x # xs) (y # ys) =
     (if (of_char x :: nat) < of_char y then - 1
      else if (of_char y :: nat) < of_char x then 1
      else codeUnitCompare xs ys)"

definition canonical :: "string \<Rightarrow> string" where
  "canonical s = (if s = [CHR ''e'', CHR 0xCC, CHR 0x81] then [CHR 0xC3, CHR 0xA9] else s)"

definition canonicalCompare :: "string \<Rightarrow> string \<Rightarrow> int" where
  "canonicalCompare a b = codeUnitCompare (canonical a) (canonical b)"

definition exampleFiles :: "(string \<times> string) list" where
  "exampleFiles =
     [(''dist/f/src/index.js'', ''exports.f = 1;''),
      (''dist/f/src/logger.js'', ''exports.log = 2;'')]"

definition exampleHost :: Host where
  "exampleHost =
     \<lparr>readFile = (\<lambda>p. case map_of exampleFiles p of
                           None \<Rightarrow> Inl (Error ''ENOENT'')
                         | Some text \<Rightarrow> Inr text),
      join = (\<lambda>a b. a @ ''/'' @ b),
      md5Hex = (\<lambda>code. Inr (''md5:'' @ code)),
      localeCompare = codeUnitCompare\<rparr>"

definition exampleHttpsFunction :: "int JsProps" where
  "exampleHttpsFunction =
     [(''functionName'', JsString ''hello''), (''absolutePath'', JsString ''/app/src/hello.ts''),
      (''deployFunction'', JsString ''onCall''), (''v2'', JsBoolean True),
      (''region'', JsString ''europe-west1''), (''memory'', JsString ''1GiB''),
      (''outputRoot'', JsString ''dist/hello'')]"

definition exampleFunction :: DeployFunctionData where
  "exampleFunction =
     \<lparr>functionName = ''f'', outputRoot = ''dist/f'',
      environment = Some [(''B'', Some ''2''), (''A'', Some ''1'')],
      hasLoggerFile = None, checksum = None, force = None\<rparr>"

text \<open>Two functions and a deploy step in which \<open>b\<close> fails in the first pass only.\<close>

definition functionA :: DeployFunctionData where
  "functionA = exampleFunction\<lparr>functionName := ''a''\<rparr>"

definition functionB :: DeployFunctionData where
  "functionB = exampleFunction\<lparr>functionName := ''b''\<rparr>"

definition bFailsFirst :: "nat \<Rightarrow> DeployFunctionData \<Rightarrow> DeployFunctionData option" where
  "bFailsFirst round f = (if round = 0 \<and> functionName f = ''b'' then None else Some f)"

definition retryTwice :: DeployExecutorOptions where
  "retryTwice = \<lparr>retryAmount = Some 2, concurrency = None\<rparr>"

definition tieHost :: Host where
  "tieHost = exampleHost\<lparr>localeCompare := canonicalCompare\<rparr>"

definition cachedHost :: Host where
  "cachedHost =
     exampleHost\<lparr>readFile := (\<lambda>p. if p = ''dist/f/checksum.md5''
                                      then Inr ''md5:exports.f = 1;A=1B=2''
                                      else readFile exampleHost p)\<rparr>"

definition brokenLoggerHost :: Host where
  "brokenLoggerHost =
     exampleHost\<lparr>readFile := (\<lambda>p. if p = ''dist/f/src/logger.js'' then Inl (Error ''EACCES'')
                                      else readFile exampleHost p)\<rparr>"

definition brokenDigestHost :: Host where
  "brokenDigestHost = exampleHost\<lparr>md5Hex := (\<lambda>code. Inl (Error ''unsupported''))\<rparr>"

section \<open>Properties of the options serializer\<close>

lemma toOptionsEntries_acc:
  "toOptionsEntries rt props acc =
     andThen (mapResult (specEntryCode rt) props) (\<lambda>parts. Inr (acc @ concat parts))"
proof (induction props arbitrary: acc)
  case Nil
  show ?case by (simp add: andThen_def)
next
  case (Cons entry props)
  obtain key v where e: "entry = (key, v)" by (cases entry)
  show ?case
    unfolding e
    by (cases v) (auto simp: Cons.IH andThen_def specEntryCode_def split: sum.splits)
qed

lemma toOptionsCode_entries:
  "toOptionsCode rt options =
     andThen (mapResult (specEntryCode rt) options) (\<lambda>parts. Inr (''{'' @ concat parts @ ''}''))"
  by (simp add: toOptionsEntries_acc andThen_def split: sum.splits)

lemma mapResult_fails:
  "x \<in> set xs \<Longrightarrow> f x = Inl e \<Longrightarrow> \<exists>e'. mapResult f xs = Inl e'"
  by (induction xs) (auto split: sum.splits)

text \<open>
  Claim C8 says that an array value is rendered element by element with the rule of a value:
  a nested object recursed into, an element of an unsupported type left out. Line 219
  quotes a string element and converts every other element with ToString. So the object
  \<^verbatim>\<open>{b: n}\<close>, which as a value is rendered as a nested literal, is rendered as the text
  \<^verbatim>\<open>[object Object]\<close> when it is an element of an array; a symbol, which as a value is
  left out, raises a TypeError as an element; and \<^verbatim>\<open>undefined\<close>, left out as a value, is
  rendered as the text \<^verbatim>\<open>undefined\<close> as an element.
\<close>

theorem toOptionsCode_array_elements_not_recursed:
  "toOptionsCode rt [(''a'', JsArray [JsObject [(''b'', JsNumber n)]])]
     = Inr ''{'a': [[object Object]],}''
   \<and> toOptionsCode rt [(''a'', JsObject [(''b'', JsNumber n)])]
     = Inr (''{'a': {'b': '' @ numberToString rt n @ '',},}'')
   \<and> toOptionsCode rt [(''a'', JsArray [JsSymbol d])] = Inl TypeError
   \<and> toOptionsCode rt [(''a'', JsSymbol d)] = Inr ''{}''
   \<and> toOptionsCode rt [(''a'', JsArray [JsUndefined])] = Inr ''{'a': [undefined],}''
   \<and> toOptionsCode rt [(''a'', JsUndefined)] = Inr ''{}''
   \<and> toOptionsCode rt [(''a'', JsArray [JsString s, JsBoolean True])]
     = Inr (''{'a': ['' @ [CHR 0x27] @ s @ [CHR 0x27] @ '',true],}'')"
  by (simp add: arrayElementCode_def quoted_def)

text \<open>
  Claim C10. An options object with a key whose value is \<^verbatim>\<open>null\<close> has no literal: the
  serializer raises an error (the TypeError of \<^verbatim>\<open>Object.entries(null)\<close>, unless an earlier
  entry has already raised).
\<close>

theorem toOptionsCode_null_fails:
  "(key, JsNull) \<in> set options \<Longrightarrow> \<exists>e. toOptionsCode rt options = Inl e"
proof -
  assume m: "(key, JsNull) \<in> set options"
  have "specEntryCode rt (key, JsNull) = Inl TypeError" by (simp add: specEntryCode_def)
  from mapResult_fails [where f = "specEntryCode rt", OF m this]
  obtain e' where "mapResult (specEntryCode rt) options = Inl e'" ..
  then show ?thesis by (simp add: toOptionsCode_entries andThen_def del: toOptionsCode.simps)
qed

theorem toOptionsCode_null_fails_witness:
  "(''cors'', JsNull) \<in> set [(''memory'', JsString ''1GiB''), (''cors'', JsNull)]
   \<and> toOptionsCode exampleRuntime [(''memory'', JsString ''1GiB''), (''cors'', JsNull)] = Inl TypeError"
proof -
  have m: "(''cors'', JsNull) \<in> set [(''memory'', JsString ''1GiB''), (''cors'', JsNull :: int JsValue)]"
    by simp
  from toOptionsCode_null_fails [OF m, of exampleRuntime] m show ?thesis
    by simp
qed

section \<open>Properties of the entry-point synthesizer\<close>

lemma toEndCode_direct:
  assumes "getProp b ''deployFunction'' = JsString kind"
      and "kind \<in> set [''onCall'', ''onRequest'']"
  shows "toEndCode rt b = Inr (specVerb kind @ ''(functionStart);'')"
proof -
  from assms(2) have "kind = ''onCall'' \<or> kind = ''onRequest''"
    by simp
  then show ?thesis
    using assms(1)
    by (elim disjE)
       (simp_all add: toEndCode_def toFunctionCodeType_def andThen_def specVerb_def verbTable_def
          functionStart_def)
qed

lemma toEndCode_document:
  assumes "getProp b ''deployFunction'' = JsString kind"
      and "kind \<in> set [''onCreate'', ''onUpdate'', ''onDelete'', ''onWrite'']"
  shows "toEndCode rt b =
           andThen (toStringJs rt (getProp b ''path'')) (\<lambda>p.
             Inr (''document('' @ quoted p @ '').'' @ specVerb kind @ ''(functionStart);''))"
proof -
  from assms(2)
  have "kind = ''onCreate'' \<or> kind = ''onUpdate'' \<or> kind = ''onDelete'' \<or> kind = ''onWrite''"
    by simp
  then show ?thesis
    using assms(1)
    by (elim disjE)
       (simp_all add: toEndCode_def toFunctionCodeType_def andThen_def specVerb_def verbTable_def
          functionStart_def)
qed

lemma toEndCode_ref:
  assumes "getProp b ''deployFunction'' = JsString kind"
      and "kind \<in> set [''onRefCreate'', ''onRefUpdate'', ''onRefDelete'', ''onRefWrite'']"
  shows "toEndCode rt b =
           andThen (toStringJs rt (getProp b ''path'')) (\<lambda>p.
             Inr (''ref('' @ quoted p @ '').'' @ specVerb kind @ ''(functionStart);''))"
proof -
  from assms(2)
  have "kind = ''onRefCreate'' \<or> kind = ''onRefUpdate'' \<or> kind = ''onRefDelete''
          \<or> kind = ''onRefWrite''"
    by simp
  then show ?thesis
    using assms(1)
    by (elim disjE)
       (simp_all add: toEndCode_def toFunctionCodeType_def andThen_def specVerb_def verbTable_def
          functionStart_def)
qed

lemma toEndCode_object:
  assumes "getProp b ''deployFunction'' = JsString kind"
      and "kind \<in> set [''onObjectArchive'', ''onObjectDelete'', ''onObjectFinalize'',
                        ''onObjectMetadataUpdate'']"
  shows "toEndCode rt b = Inr (''object().'' @ specVerb kind @ ''(functionStart);'')"
proof -
  from assms(2)
  have "kind = ''onObjectArchive'' \<or> kind = ''onObjectDelete'' \<or> kind = ''onObjectFinalize''
          \<or> kind = ''onObjectMetadataUpdate''"
    by simp
  then show ?thesis
    using assms(1)
    by (elim disjE)
       (simp_all add: toEndCode_def toFunctionCodeType_def andThen_def specVerb_def verbTable_def
          functionStart_def)
qed

lemma toEndCode_schedule:
  assumes "getProp b ''deployFunction'' = JsString ''schedule''"
  shows "toEndCode rt b = getScheduleDeployCode rt (Some b)"
  using assms
  by (simp add: toEndCode_def toFunctionCodeType_def andThen_def)

lemma toEndCode_topic:
  assumes "getProp b ''deployFunction'' = JsString ''topic''"
  shows "toEndCode rt b = getTopicDeployCode rt (Some b)"
  using assms
  by (simp add: toEndCode_def toFunctionCodeType_def andThen_def)

lemma getScheduleDeployCode_Some:
  "getScheduleDeployCode rt (Some opts) =
     andThen (toStringJs rt (getProp opts ''schedule'')) (\<lambda>s.
       if truthy rt (getProp opts ''timeZone'')
       then andThen (toStringJs rt (getProp opts ''timeZone'')) (\<lambda>tz.
              Inr (''schedule('' @ quoted s @ '').timeZone('' @ quoted tz @ '').onRun(functionStart)''))
       else Inr (''schedule('' @ quoted s @ '').onRun(functionStart)''))"
proof (cases "toStringJs rt (getProp opts ''schedule'')")
  case (Inl e)
  then show ?thesis by (simp add: getScheduleDeployCode_def andThen_def)
next
  case s: (Inr s)
  show ?thesis
  proof (cases "toStringJs rt (getProp opts ''timeZone'')")
    case (Inl e)
    with s show ?thesis by (simp add: getScheduleDeployCode_def andThen_def functionStart_def)
  next
    case (Inr tz)
    with s show ?thesis by (simp add: getScheduleDeployCode_def andThen_def functionStart_def)
  qed
qed

lemma getTopicDeployCode_Some:
  "getTopicDeployCode rt (Some opts) =
     andThen (toStringJs rt (getProp opts ''topic'')) (\<lambda>t.
       Inr (''topic('' @ quoted t @ '').onRun(functionStart)''))"
proof (cases "toStringJs rt (getProp opts ''topic'')")
  case (Inl e)
  then show ?thesis by (simp add: getTopicDeployCode_def andThen_def)
next
  case (Inr t)
  then show ?thesis by (simp add: getTopicDeployCode_def andThen_def functionStart_def)
qed

lemma schedule_ends_with_onRun:
  assumes "getScheduleDeployCode rt (Some opts) = Inr code"
  shows "\<exists>chain. code = ''schedule('' @ chain @ ''.'' @ specVerb ''schedule'' @ ''(functionStart)''"
proof -
  have v: "specVerb ''schedule'' = ''onRun''"
    by (simp add: specVerb_def verbTable_def)
  from assms obtain s where s: "toStringJs rt (getProp opts ''schedule'') = Inr s"
    by (cases "toStringJs rt (getProp opts ''schedule'')")
       (simp_all add: getScheduleDeployCode_Some andThen_def)
  show ?thesis
  proof (cases "truthy rt (getProp opts ''timeZone'')")
    case False
    with assms s have "code = ''schedule('' @ (quoted s @ '')'') @ ''.'' @ ''onRun'' @ ''(functionStart)''"
      by (simp add: getScheduleDeployCode_Some andThen_def)
    then show ?thesis unfolding v by blast
  next
    case True
    with assms s obtain tz where "toStringJs rt (getProp opts ''timeZone'') = Inr tz"
      by (cases "toStringJs rt (getProp opts ''timeZone'')")
         (simp_all add: getScheduleDeployCode_Some andThen_def)
    with True assms s
    have "code = ''schedule('' @ (quoted s @ '').timeZone('' @ quoted tz @ '')'') @ ''.'' @ ''onRun''
                   @ ''(functionStart)''"
      by (simp add: getScheduleDeployCode_Some andThen_def)
    then show ?thesis unfolding v by blast
  qed
qed

lemma topic_ends_with_onRun:
  assumes "getTopicDeployCode rt (Some opts) = Inr code"
  shows "\<exists>chain. code = ''topic('' @ chain @ ''.'' @ specVerb ''topic'' @ ''(functionStart)''"
proof -
  have v: "specVerb ''topic'' = ''onRun''"
    by (simp add: specVerb_def verbTable_def)
  from assms obtain t where t: "toStringJs rt (getProp opts ''topic'') = Inr t"
    by (cases "toStringJs rt (getProp opts ''topic'')")
       (simp_all add: getTopicDeployCode_Some andThen_def)
  with assms have "code = ''topic('' @ (quoted t @ '')'') @ ''.'' @ ''onRun'' @ ''(functionStart)''"
    by (simp add: getTopicDeployCode_Some andThen_def)
  then show ?thesis unfolding v by blast
qed

lemma toEndCode_unknown_kind:
  assumes "getProp b ''deployFunction'' = JsString kind"
      and "kind \<notin> set triggerKinds"
  shows "toEndCode rt b = Inl (Error (''Unknown function type: '' @ kind))"
  using assms
  by (simp add: toEndCode_def toFunctionCodeType_def andThen_def triggerKinds_def
      unknownFunctionType_def)

lemma toEndCode_unknown_value:
  assumes "getProp b ''deployFunction'' \<notin> JsString ` set triggerKinds"
  shows "\<exists>e. toEndCode rt b = Inl e"
proof -
  let ?v = "getProp b ''deployFunction''"
  have "toFunctionCodeType rt ?v = unknownFunctionType rt ?v"
    using assms by (simp add: toFunctionCodeType_def triggerKinds_def)
  moreover obtain e where "unknownFunctionType rt ?v = Inl e"
    by (cases "toStringJs rt ?v") (simp_all add: unknownFunctionType_def andThen_def)
  ultimately have "toEndCode rt b = Inl e"
    by (simp add: toEndCode_def andThen_def)
  then show ?thesis ..
qed


text \<open>
  Claim C3. For every trigger kind of the closed set, \<open>toEndCode\<close> ends the chain with the
  verb the table gives for the kind: the https kinds call the verb directly, the document
  kinds put \<^verbatim>\<open>document('path')\<close> and the ref kinds \<^verbatim>\<open>ref('path')\<close> before it, the
  storage kinds put \<^verbatim>\<open>object()\<close> before it, \<^verbatim>\<open>schedule\<close> and \<^verbatim>\<open>topic\<close> end their own
  chain with \<^verbatim>\<open>onRun\<close>. A string outside the closed set raises the error
  \<^verbatim>\<open>Unknown function type\<close>, and so does every value that is not one of the sixteen
  strings. The five families together are the closed set.
\<close>

theorem toEndCode_verb_table:
  "(getProp b ''deployFunction'' = JsString kind \<longrightarrow>
      (kind \<in> set [''onCall'', ''onRequest''] \<longrightarrow>
         toEndCode rt b = Inr (specVerb kind @ ''(functionStart);''))
    \<and> (kind \<in> set [''onCreate'', ''onUpdate'', ''onDelete'', ''onWrite''] \<longrightarrow>
         toEndCode rt b =
           andThen (toStringJs rt (getProp b ''path'')) (\<lambda>p.
             Inr (''document('' @ quoted p @ '').'' @ specVerb kind @ ''(functionStart);'')))
    \<and> (kind \<in> set [''onRefCreate'', ''onRefUpdate'', ''onRefDelete'', ''onRefWrite''] \<longrightarrow>
         toEndCode rt b =
           andThen (toStringJs rt (getProp b ''path'')) (\<lambda>p.
             Inr (''ref('' @ quoted p @ '').'' @ specVerb kind @ ''(functionStart);'')))
    \<and> (kind \<in> set [''onObjectArchive'', ''onObjectDelete'', ''onObjectFinalize'',
                     ''onObjectMetadataUpdate''] \<longrightarrow>
         toEndCode rt b = Inr (''object().'' @ specVerb kind @ ''(functionStart);''))
    \<and> (kind = ''schedule'' \<longrightarrow>
         toEndCode rt b = getScheduleDeployCode rt (Some b)
         \<and> (\<forall>code. toEndCode rt b = Inr code \<longrightarrow>
               (\<exists>chain. code = ''schedule('' @ chain @ ''.'' @ specVerb kind @ ''(functionStart)'')))
    \<and> (kind = ''topic'' \<longrightarrow>
         toEndCode rt b = getTopicDeployCode rt (Some b)
         \<and> (\<forall>code. toEndCode rt b = Inr code \<longrightarrow>
               (\<exists>chain. code = ''topic('' @ chain @ ''.'' @ specVerb kind @ ''(functionStart)'')))
    \<and> (kind \<notin> set triggerKinds \<longrightarrow>
         toEndCode rt b = Inl (Error (''Unknown function type: '' @ kind))))
   \<and> (getProp b ''deployFunction'' \<notin> JsString ` set triggerKinds \<longrightarrow>
        (\<exists>e. toEndCode rt b = Inl e))
   \<and> set triggerKinds =
        set [''onCall'', ''onRequest'']
        \<union> set [''onCreate'', ''onUpdate'', ''onDelete'', ''onWrite'']
        \<union> set [''onRefCreate'', ''onRefUpdate'', ''onRefDelete'', ''onRefWrite'']
        \<union> set [''onObjectArchive'', ''onObjectDelete'', ''onObjectFinalize'',
                ''onObjectMetadataUpdate'']
        \<union> set [''schedule'', ''topic'']"
proof (intro conjI impI)
  assume k: "getProp b ''deployFunction'' = JsString kind"
  {
    assume "kind \<in> set [''onCall'', ''onRequest'']"
    with k show "toEndCode rt b = Inr (specVerb kind @ ''(functionStart);'')"
      by (rule toEndCode_direct)
  }
  {
    assume "kind \<in> set [''onCreate'', ''onUpdate'', ''onDelete'', ''onWrite'']"
    with k show "toEndCode rt b =
           andThen (toStringJs rt (getProp b ''path'')) (\<lambda>p.
             Inr (''document('' @ quoted p @ '').'' @ specVerb kind @ ''(functionStart);''))"
      by (rule toEndCode_document)
  }
  {
    assume "kind \<in> set [''onRefCreate'', ''onRefUpdate'', ''onRefDelete'', ''onRefWrite'']"
    with k show "toEndCode rt b =
           andThen (toStringJs rt (getProp b ''path'')) (\<lambda>p.
             Inr (''ref('' @ quoted p @ '').'' @ specVerb kind @ ''(functionStart);''))"
      by (rule toEndCode_ref)
  }
  {
    assume "kind \<in> set [''onObjectArchive'', ''onObjectDelete'', ''onObjectFinalize'',
                     ''onObjectMetadataUpdate'']"
    with k show "toEndCode rt b = Inr (''object().'' @ specVerb kind @ ''(functionStart);'')"
      by (rule toEndCode_object)
  }
  {
    assume s: "kind = ''schedule''"
    with k show e: "toEndCode rt b = getScheduleDeployCode rt (Some b)"
      by (simp add: toEndCode_schedule)
    show "\<forall>code. toEndCode rt b = Inr code \<longrightarrow>
               (\<exists>chain. code = ''schedule('' @ chain @ ''.'' @ specVerb kind @ ''(functionStart)'')"
      unfolding e s using schedule_ends_with_onRun by blast
  }
  {
    assume s: "kind = ''topic''"
    with k show e: "toEndCode rt b = getTopicDeployCode rt (Some b)"
      by (simp add: toEndCode_topic)
    show "\<forall>code. toEndCode rt b = Inr code \<longrightarrow>
               (\<exists>chain. code = ''topic('' @ chain @ ''.'' @ specVerb kind @ ''(functionStart)'')"
      unfolding e s using topic_ends_with_onRun by blast
  }
  {
    assume "kind \<notin> set triggerKinds"
    with k show "toEndCode rt b = Inl (Error (''Unknown function type: '' @ kind))"
      by (rule toEndCode_unknown_kind)
  }
next
  assume "getProp b ''deployFunction'' \<notin> JsString ` set triggerKinds"
  then show "\<exists>e. toEndCode rt b = Inl e"
    by (rule toEndCode_unknown_value)
next
  show "set triggerKinds =
        set [''onCall'', ''onRequest'']
        \<union> set [''onCreate'', ''onUpdate'', ''onDelete'', ''onWrite'']
        \<union> set [''onRefCreate'', ''onRefUpdate'', ''onRefDelete'', ''onRefWrite'']
        \<union> set [''onObjectArchive'', ''onObjectDelete'', ''onObjectFinalize'',
                ''onObjectMetadataUpdate'']
        \<union> set [''schedule'', ''topic'']"
    unfolding triggerKinds_def by (simp add: insert_commute)
qed


theorem toEndCode_verb_table_witness:
  "toEndCode exampleRuntime
       [(''deployFunction'', JsString ''onCreate''), (''path'', JsString ''users/{id}'')]
     = Inr ''document('users/{id}').onCreate(functionStart);''
   \<and> toEndCode exampleRuntime
       [(''deployFunction'', JsString ''onRefUpdate''), (''path'', JsString ''rooms/{id}'')]
     = Inr ''ref('rooms/{id}').onUpdate(functionStart);''
   \<and> toEndCode exampleRuntime [(''deployFunction'', JsString ''onRequest'')]
     = Inr ''onRequest(functionStart);''
   \<and> toEndCode exampleRuntime [(''deployFunction'', JsString ''onObjectArchive'')]
     = Inr ''object().onArchive(functionStart);''
   \<and> toEndCode exampleRuntime
       [(''deployFunction'', JsString ''schedule''), (''schedule'', JsString ''every day'')]
     = Inr ''schedule('every day').onRun(functionStart)''
   \<and> toEndCode exampleRuntime
       [(''deployFunction'', JsString ''topic''), (''topic'', JsString ''orders'')]
     = Inr ''topic('orders').onRun(functionStart)''
   \<and> toEndCode exampleRuntime [(''deployFunction'', JsString ''onTaskDispatched'')]
     = Inl (Error ''Unknown function type: onTaskDispatched'')
   \<and> toEndCode exampleRuntime [(''path'', JsString ''users/{id}'')]
     = Inl (Error ''Unknown function type: undefined'')"
proof -
  note t = toEndCode_verb_table [where rt = exampleRuntime]
  have v: "specVerb ''onCreate'' = ''onCreate''" "specVerb ''onRefUpdate'' = ''onUpdate''"
    "specVerb ''onRequest'' = ''onRequest''" "specVerb ''onObjectArchive'' = ''onArchive''"
    by (simp_all add: specVerb_def verbTable_def)
  have 1: "toEndCode exampleRuntime
       [(''deployFunction'', JsString ''onCreate''), (''path'', JsString ''users/{id}'')]
     = Inr ''document('users/{id}').onCreate(functionStart);''"
    using t [where kind = "''onCreate''"
          and b = "[(''deployFunction'', JsString ''onCreate''), (''path'', JsString ''users/{id}'')]"]
    by (simp add: getProp_def v andThen_def quoted_def)
  have 2: "toEndCode exampleRuntime
       [(''deployFunction'', JsString ''onRefUpdate''), (''path'', JsString ''rooms/{id}'')]
     = Inr ''ref('rooms/{id}').onUpdate(functionStart);''"
    using t [where kind = "''onRefUpdate''"
          and b = "[(''deployFunction'', JsString ''onRefUpdate''), (''path'', JsString ''rooms/{id}'')]"]
    by (simp add: getProp_def v andThen_def quoted_def)
  have 3: "toEndCode exampleRuntime [(''deployFunction'', JsString ''onRequest'')]
     = Inr ''onRequest(functionStart);''"
    using t [where kind = "''onRequest''" and b = "[(''deployFunction'', JsString ''onRequest'')]"]
    by (simp add: getProp_def v)
  have 4: "toEndCode exampleRuntime [(''deployFunction'', JsString ''onObjectArchive'')]
     = Inr ''object().onArchive(functionStart);''"
    using t [where kind = "''onObjectArchive''"
          and b = "[(''deployFunction'', JsString ''onObjectArchive'')]"]
    by (simp add: getProp_def v)
  have 5: "toEndCode exampleRuntime
       [(''deployFunction'', JsString ''schedule''), (''schedule'', JsString ''every day'')]
     = Inr ''schedule('every day').onRun(functionStart)''"
    using t [where kind = "''schedule''"
          and b = "[(''deployFunction'', JsString ''schedule''), (''schedule'', JsString ''every day'')]"]
    by (simp add: getProp_def getScheduleDeployCode_Some andThen_def quoted_def)
  have 6: "toEndCode exampleRuntime
       [(''deployFunction'', JsString ''topic''), (''topic'', JsString ''orders'')]
     = Inr ''topic('orders').onRun(functionStart)''"
    using t [where kind = "''topic''"
          and b = "[(''deployFunction'', JsString ''topic''), (''topic'', JsString ''orders'')]"]
    by (simp add: getProp_def getTopicDeployCode_Some andThen_def quoted_def)
  have 7: "toEndCode exampleRuntime [(''deployFunction'', JsString ''onTaskDispatched'')]
     = Inl (Error ''Unknown function type: onTaskDispatched'')"
    using t [where kind = "''onTaskDispatched''"
          and b = "[(''deployFunction'', JsString ''onTaskDispatched'')]"]
    by (simp add: getProp_def triggerKinds_def)
  have "getProp [(''path'', JsString ''users/{id}'')] ''deployFunction''
          \<notin> (JsString ` set triggerKinds :: int JsValue set)"
    by (auto simp: getProp_def)
  with t [where kind = "[]" and b = "[(''path'', JsString ''users/{id}'')]"]
  obtain e where "toEndCode exampleRuntime [(''path'', JsString ''users/{id}'')] = Inl e"
    by blast
  moreover have "toEndCode exampleRuntime [(''path'', JsString ''users/{id}'')]
                   = Inl (Error ''Unknown function type: undefined'')"
    by (simp add: toEndCode_def toFunctionCodeType_def unknownFunctionType_def andThen_def
        getProp_def)
  ultimately have 8: "toEndCode exampleRuntime [(''path'', JsString ''users/{id}'')]
     = Inl (Error ''Unknown function type: undefined'')"
    by simp
  from 1 2 3 4 5 6 7 8 show ?thesis by simp
qed

text \<open>
  Claim C7, as amended. \<^verbatim>\<open>schedule\<close> synthesis interpolates the \<^verbatim>\<open>schedule\<close> option into
  \<^verbatim>\<open>schedule('...')\<close> and, when the \<^verbatim>\<open>timeZone\<close> option is truthy, puts
  \<^verbatim>\<open>timeZone('...')\<close> between that call and the \<^verbatim>\<open>onRun\<close> terminator; \<^verbatim>\<open>topic\<close> synthesis
  interpolates the \<^verbatim>\<open>topic\<close> option into \<^verbatim>\<open>topic('...')\<close> before \<^verbatim>\<open>onRun\<close>. The only
  error the two functions raise themselves is \<^verbatim>\<open>Pubsub deploy options are required\<close>, for
  an absent options object, and \<open>toEndCode\<close> always passes the object.
\<close>

theorem pubsub_deploy_code:
  "getScheduleDeployCode rt None = Inl (Error ''Pubsub deploy options are required'')
   \<and> getTopicDeployCode rt None = Inl (Error ''Pubsub deploy options are required'')
   \<and> getScheduleDeployCode rt (Some opts) =
        andThen (toStringJs rt (getProp opts ''schedule'')) (\<lambda>s.
          if truthy rt (getProp opts ''timeZone'')
          then andThen (toStringJs rt (getProp opts ''timeZone'')) (\<lambda>tz.
                 Inr (''schedule('' @ quoted s @ '').timeZone('' @ quoted tz
                        @ '').onRun(functionStart)''))
          else Inr (''schedule('' @ quoted s @ '').onRun(functionStart)''))
   \<and> getTopicDeployCode rt (Some opts) =
        andThen (toStringJs rt (getProp opts ''topic'')) (\<lambda>t.
          Inr (''topic('' @ quoted t @ '').onRun(functionStart)''))
   \<and> (getProp b ''deployFunction'' = JsString ''schedule'' \<longrightarrow>
        toEndCode rt b = getScheduleDeployCode rt (Some b))
   \<and> (getProp b ''deployFunction'' = JsString ''topic'' \<longrightarrow>
        toEndCode rt b = getTopicDeployCode rt (Some b))"
proof (intro conjI impI)
  show "getScheduleDeployCode rt None = Inl (Error ''Pubsub deploy options are required'')"
    by (simp add: getScheduleDeployCode_def)
  show "getTopicDeployCode rt None = Inl (Error ''Pubsub deploy options are required'')"
    by (simp add: getTopicDeployCode_def)
  show "getScheduleDeployCode rt (Some opts) =
        andThen (toStringJs rt (getProp opts ''schedule'')) (\<lambda>s.
          if truthy rt (getProp opts ''timeZone'')
          then andThen (toStringJs rt (getProp opts ''timeZone'')) (\<lambda>tz.
                 Inr (''schedule('' @ quoted s @ '').timeZone('' @ quoted tz
                        @ '').onRun(functionStart)''))
          else Inr (''schedule('' @ quoted s @ '').onRun(functionStart)''))"
    by (rule getScheduleDeployCode_Some)
  show "getTopicDeployCode rt (Some opts) =
        andThen (toStringJs rt (getProp opts ''topic'')) (\<lambda>t.
          Inr (''topic('' @ quoted t @ '').onRun(functionStart)''))"
    by (rule getTopicDeployCode_Some)
next
  assume "getProp b ''deployFunction'' = JsString ''schedule''"
  then show "toEndCode rt b = getScheduleDeployCode rt (Some b)"
    by (rule toEndCode_schedule)
next
  assume "getProp b ''deployFunction'' = JsString ''topic''"
  then show "toEndCode rt b = getTopicDeployCode rt (Some b)"
    by (rule toEndCode_topic)
qed

theorem pubsub_deploy_code_witness:
  "getProp [(''deployFunction'', JsString ''schedule''), (''schedule'', JsString ''every 5 minutes''),
            (''timeZone'', JsString ''Europe/Oslo'')] ''deployFunction''
     = (JsString ''schedule'' :: int JsValue)
   \<and> toEndCode exampleRuntime
         [(''deployFunction'', JsString ''schedule''), (''schedule'', JsString ''every 5 minutes''),
          (''timeZone'', JsString ''Europe/Oslo'')]
       = Inr ''schedule('every 5 minutes').timeZone('Europe/Oslo').onRun(functionStart)''
   \<and> getProp [(''deployFunction'', JsString ''topic''), (''topic'', JsString ''orders'')]
         ''deployFunction'' = (JsString ''topic'' :: int JsValue)
   \<and> toEndCode exampleRuntime
         [(''deployFunction'', JsString ''topic''), (''topic'', JsString ''orders'')]
       = Inr ''topic('orders').onRun(functionStart)''"
proof -
  let ?s = "[(''deployFunction'', JsString ''schedule''), (''schedule'', JsString ''every 5 minutes''),
             (''timeZone'', JsString ''Europe/Oslo'')] :: int JsProps"
  let ?t = "[(''deployFunction'', JsString ''topic''), (''topic'', JsString ''orders'')]
              :: int JsProps"
  have ks: "getProp ?s ''deployFunction'' = JsString ''schedule''"
    by (simp add: getProp_def)
  have kt: "getProp ?t ''deployFunction'' = JsString ''topic''"
    by (simp add: getProp_def)
  have ps: "getProp ?s ''schedule'' = JsString ''every 5 minutes''"
           "getProp ?s ''timeZone'' = JsString ''Europe/Oslo''"
    by (simp_all add: getProp_def)
  have pt: "getProp ?t ''topic'' = JsString ''orders''"
    by (simp add: getProp_def)
  from pubsub_deploy_code [where rt = exampleRuntime and opts = ?s and b = ?s] ks
  have "toEndCode exampleRuntime ?s =
        andThen (toStringJs exampleRuntime (getProp ?s ''schedule'')) (\<lambda>s.
          if truthy exampleRuntime (getProp ?s ''timeZone'')
          then andThen (toStringJs exampleRuntime (getProp ?s ''timeZone'')) (\<lambda>tz.
                 Inr (''schedule('' @ quoted s @ '').timeZone('' @ quoted tz
                        @ '').onRun(functionStart)''))
          else Inr (''schedule('' @ quoted s @ '').onRun(functionStart)''))"
    by simp
  then have a: "toEndCode exampleRuntime ?s
       = Inr ''schedule('every 5 minutes').timeZone('Europe/Oslo').onRun(functionStart)''"
    unfolding ps by (simp add: andThen_def quoted_def)
  from pubsub_deploy_code [where rt = exampleRuntime and opts = ?t and b = ?t] kt
  have "toEndCode exampleRuntime ?t =
        andThen (toStringJs exampleRuntime (getProp ?t ''topic'')) (\<lambda>t.
          Inr (''topic('' @ quoted t @ '').onRun(functionStart)''))"
    by simp
  then have b: "toEndCode exampleRuntime ?t = Inr ''topic('orders').onRun(functionStart)''"
    unfolding pt by (simp add: andThen_def quoted_def)
  from a b ks kt show ?thesis by simp
qed

text \<open>
  Claim C7 as stated fails: a \<^verbatim>\<open>schedule\<close> (or \<^verbatim>\<open>topic\<close>) function without its option is
  synthesized without error, the missing option reading \<^verbatim>\<open>undefined\<close>.
\<close>

theorem missing_schedule_option_counterexample:
  "toEndCode exampleRuntime [(''deployFunction'', JsString ''schedule'')]
     = Inr ''schedule('undefined').onRun(functionStart)''
   \<and> toEndCode exampleRuntime [(''deployFunction'', JsString ''topic'')]
     = Inr ''topic('undefined').onRun(functionStart)''"
  by (simp add: toEndCode_schedule toEndCode_topic getProp_def getScheduleDeployCode_Some
      getTopicDeployCode_Some andThen_def quoted_def)


lemma invalidDeployFunction_fails: "\<exists>e. invalidDeployFunction rt v = Inl e"
  by (cases "toStringJs rt v") (simp_all add: invalidDeployFunction_def andThen_def)

lemma toDeployV2IndexCode_valid:
  assumes "getProp b ''deployFunction'' = JsString df"
      and "df \<in> set [''onCall'', ''onRequest'']"
  shows "toDeployV2IndexCode rt b =
           andThen (pathWithoutSuffix (getProp b ''absolutePath'')) (\<lambda>pws.
           andThen (toStringJs rt (getProp b ''functionName'')) (\<lambda>name.
           andThen (toOptionsCode rt (removeAllOtherOptions b)) (\<lambda>optionsCode.
             Inr ([CHR 0x0A, CHR 0x09, CHR 0x09] @ ''import { '' @ df @ '' } from 'firebase-functions/v2/https';''
                     @ [CHR 0x0A, CHR 0x09, CHR 0x09] @ ''import functionStart from '' @ [CHR 0x27] @ pws @ [CHR 0x27] @ '';''
                     @ [CHR 0x0A, CHR 0x09, CHR 0x09] @ ''export const '' @ name @ '' = '' @ df @ ''(''
                     @ [CHR 0x0A, CHR 0x09, CHR 0x09, CHR 0x09, CHR 0x09] @ ''('' @ optionsCode @ ''),''
                     @ [CHR 0x0A, CHR 0x09, CHR 0x09, CHR 0x09, CHR 0x09] @ ''functionStart''
                     @ [CHR 0x0A, CHR 0x09, CHR 0x09, CHR 0x09] @ '');''
                     @ [CHR 0x0A, CHR 0x09]))))"
proof -
  from assms(2) have "df = ''onCall'' \<or> df = ''onRequest''" by simp
  then show ?thesis
    using assms(1)
    by (elim disjE)
       (simp_all add: toDeployV2IndexCode_def andThen_def getV2Options_def nl_def tab_def
          quoted_def functionStart_def del: toOptionsCode.simps cong: sum.case_cong)
qed

lemma toDeployV2IndexCode_invalid_kind:
  assumes "getProp b ''deployFunction'' = JsString kind"
      and "kind \<notin> set [''onCall'', ''onRequest'']"
  shows "toDeployV2IndexCode rt b =
           Inl (Error (''Invalid deploy function '' @ kind @ '' for https v2''))"
  using assms
  by (simp add: toDeployV2IndexCode_def invalidDeployFunction_def andThen_def)

lemma toDeployV2IndexCode_success:
  assumes "toDeployV2IndexCode rt b = Inr code"
  shows "\<exists>df pws name optionsCode.
           df \<in> set [''onCall'', ''onRequest'']
           \<and> getProp b ''deployFunction'' = JsString df
           \<and> pathWithoutSuffix (getProp b ''absolutePath'') = Inr pws
           \<and> toStringJs rt (getProp b ''functionName'') = Inr name
           \<and> toOptionsCode rt (removeAllOtherOptions b) = Inr optionsCode
           \<and> code =
                  ([CHR 0x0A, CHR 0x09, CHR 0x09] @ ''import { '' @ df @ '' } from 'firebase-functions/v2/https';''
                     @ [CHR 0x0A, CHR 0x09, CHR 0x09] @ ''import functionStart from '' @ [CHR 0x27] @ pws @ [CHR 0x27] @ '';''
                     @ [CHR 0x0A, CHR 0x09, CHR 0x09] @ ''export const '' @ name @ '' = '' @ df @ ''(''
                     @ [CHR 0x0A, CHR 0x09, CHR 0x09, CHR 0x09, CHR 0x09] @ ''('' @ optionsCode @ ''),''
                     @ [CHR 0x0A, CHR 0x09, CHR 0x09, CHR 0x09, CHR 0x09] @ ''functionStart''
                     @ [CHR 0x0A, CHR 0x09, CHR 0x09, CHR 0x09] @ '');''
                     @ [CHR 0x0A, CHR 0x09])"
proof -
  let ?v = "getProp b ''deployFunction''"
  have "?v = JsString ''onRequest'' \<or> ?v = JsString ''onCall''"
  proof (rule ccontr)
    assume "\<not> (?v = JsString ''onRequest'' \<or> ?v = JsString ''onCall'')"
    then have "toDeployV2IndexCode rt b = invalidDeployFunction rt ?v"
      by (simp add: toDeployV2IndexCode_def)
    with assms invalidDeployFunction_fails [of rt ?v] show False by auto
  qed
  then obtain df where df: "?v = JsString df" "df \<in> set [''onCall'', ''onRequest'']"
    by auto
  note eq = toDeployV2IndexCode_valid [OF df, of rt]
  from assms eq obtain pws where pws: "pathWithoutSuffix (getProp b ''absolutePath'') = Inr pws"
    by (cases "pathWithoutSuffix (getProp b ''absolutePath'')") (simp_all add: andThen_def)
  from assms eq pws obtain name where name: "toStringJs rt (getProp b ''functionName'') = Inr name"
    by (cases "toStringJs rt (getProp b ''functionName'')") (simp_all add: andThen_def)
  from assms eq pws name obtain optionsCode
    where oc: "toOptionsCode rt (removeAllOtherOptions b) = Inr optionsCode"
    by (cases "toOptionsCode rt (removeAllOtherOptions b)")
       (simp_all add: andThen_def del: toOptionsCode.simps)
  from assms eq pws name oc
  have "code =
                  ([CHR 0x0A, CHR 0x09, CHR 0x09] @ ''import { '' @ df @ '' } from 'firebase-functions/v2/https';''
                     @ [CHR 0x0A, CHR 0x09, CHR 0x09] @ ''import functionStart from '' @ [CHR 0x27] @ pws @ [CHR 0x27] @ '';''
                     @ [CHR 0x0A, CHR 0x09, CHR 0x09] @ ''export const '' @ name @ '' = '' @ df @ ''(''
                     @ [CHR 0x0A, CHR 0x09, CHR 0x09, CHR 0x09, CHR 0x09] @ ''('' @ optionsCode @ ''),''
                     @ [CHR 0x0A, CHR 0x09, CHR 0x09, CHR 0x09, CHR 0x09] @ ''functionStart''
                     @ [CHR 0x0A, CHR 0x09, CHR 0x09, CHR 0x09] @ '');''
                     @ [CHR 0x0A, CHR 0x09])"
    by (simp add: andThen_def del: toOptionsCode.simps)
  with df pws name oc show ?thesis by blast
qed

text \<open>
  Claim C2. When the options declare \<^verbatim>\<open>v2: true\<close>, synthesis succeeds only for
  \<^verbatim>\<open>onCall\<close> and \<^verbatim>\<open>onRequest\<close>; every other trigger kind raises the error
  \<^verbatim>\<open>Invalid deploy function <kind> for https v2\<close>. A successful result is, character by
  character, the text that imports the https binding \<^verbatim>\<open>df\<close> and the handler and exports
  \<^verbatim>\<open>df((options), functionStart);\<close>: the binding called directly with the serialized
  options literal of \<open>removeAllOtherOptions\<close> and the handler, with no chain of calls
  (line feeds are 0x0A, tabs 0x09, quotes 0x27).
\<close>

theorem toDeployIndexCode_v2:
  assumes "getProp b ''v2'' = JsBoolean True"
  shows "(\<forall>code. toDeployIndexCode rt b = Inr code \<longrightarrow>
            (\<exists>df pws name optionsCode.
               df \<in> set [''onCall'', ''onRequest'']
               \<and> getProp b ''deployFunction'' = JsString df
               \<and> pathWithoutSuffix (getProp b ''absolutePath'') = Inr pws
               \<and> toStringJs rt (getProp b ''functionName'') = Inr name
               \<and> toOptionsCode rt (removeAllOtherOptions b) = Inr optionsCode
               \<and> code =
                  ([CHR 0x0A, CHR 0x09, CHR 0x09] @ ''import { '' @ df @ '' } from 'firebase-functions/v2/https';''
                     @ [CHR 0x0A, CHR 0x09, CHR 0x09] @ ''import functionStart from '' @ [CHR 0x27] @ pws @ [CHR 0x27] @ '';''
                     @ [CHR 0x0A, CHR 0x09, CHR 0x09] @ ''export const '' @ name @ '' = '' @ df @ ''(''
                     @ [CHR 0x0A, CHR 0x09, CHR 0x09, CHR 0x09, CHR 0x09] @ ''('' @ optionsCode @ ''),''
                     @ [CHR 0x0A, CHR 0x09, CHR 0x09, CHR 0x09, CHR 0x09] @ ''functionStart''
                     @ [CHR 0x0A, CHR 0x09, CHR 0x09, CHR 0x09] @ '');''
                     @ [CHR 0x0A, CHR 0x09])))
         \<and> (\<forall>kind. getProp b ''deployFunction'' = JsString kind
                \<and> kind \<notin> set [''onCall'', ''onRequest''] \<longrightarrow>
              toDeployIndexCode rt b =
                Inl (Error (''Invalid deploy function '' @ kind @ '' for https v2'')))
         \<and> (\<forall>df. getProp b ''deployFunction'' = JsString df
                \<and> df \<in> set [''onCall'', ''onRequest''] \<longrightarrow>
              toDeployIndexCode rt b =
                andThen (pathWithoutSuffix (getProp b ''absolutePath'')) (\<lambda>pws.
                andThen (toStringJs rt (getProp b ''functionName'')) (\<lambda>name.
                andThen (toOptionsCode rt (removeAllOtherOptions b)) (\<lambda>optionsCode.
                  Inr ([CHR 0x0A, CHR 0x09, CHR 0x09] @ ''import { '' @ df @ '' } from 'firebase-functions/v2/https';''
                     @ [CHR 0x0A, CHR 0x09, CHR 0x09] @ ''import functionStart from '' @ [CHR 0x27] @ pws @ [CHR 0x27] @ '';''
                     @ [CHR 0x0A, CHR 0x09, CHR 0x09] @ ''export const '' @ name @ '' = '' @ df @ ''(''
                     @ [CHR 0x0A, CHR 0x09, CHR 0x09, CHR 0x09, CHR 0x09] @ ''('' @ optionsCode @ ''),''
                     @ [CHR 0x0A, CHR 0x09, CHR 0x09, CHR 0x09, CHR 0x09] @ ''functionStart''
                     @ [CHR 0x0A, CHR 0x09, CHR 0x09, CHR 0x09] @ '');''
                     @ [CHR 0x0A, CHR 0x09])))))"
proof -
  from assms have v2: "toDeployIndexCode rt b = toDeployV2IndexCode rt b"
    by (simp add: toDeployIndexCode_def)
  show ?thesis
    unfolding v2
    using toDeployV2IndexCode_success [of rt b] toDeployV2IndexCode_invalid_kind [of b _ rt]
      toDeployV2IndexCode_valid [of b _ rt]
    by blast
qed

theorem toDeployIndexCode_v2_witness:
  "getProp exampleHttpsFunction ''v2'' = JsBoolean True
   \<and> toDeployIndexCode exampleRuntime exampleHttpsFunction
       = Inr ([CHR 0x0A, CHR 0x09, CHR 0x09] @ ''import { '' @ ''onCall'' @ '' } from 'firebase-functions/v2/https';''
              @ [CHR 0x0A, CHR 0x09, CHR 0x09] @ ''import functionStart from '' @ [CHR 0x27] @ ''/app/src/hello'' @ [CHR 0x27] @ '';''
              @ [CHR 0x0A, CHR 0x09, CHR 0x09] @ ''export const '' @ ''hello'' @ '' = '' @ ''onCall'' @ ''(''
              @ [CHR 0x0A, CHR 0x09, CHR 0x09, CHR 0x09, CHR 0x09] @ ''('' @ ''{'region': 'europe-west1','memory': '1GiB',}'' @ ''),''
              @ [CHR 0x0A, CHR 0x09, CHR 0x09, CHR 0x09, CHR 0x09] @ ''functionStart''
              @ [CHR 0x0A, CHR 0x09, CHR 0x09, CHR 0x09] @ '');''
              @ [CHR 0x0A, CHR 0x09])
   \<and> getProp [(''v2'', JsBoolean True), (''deployFunction'', JsString ''schedule'')] ''v2''
       = (JsBoolean True :: int JsValue)
   \<and> toDeployIndexCode exampleRuntime
         [(''v2'', JsBoolean True), (''deployFunction'', JsString ''schedule'')]
       = Inl (Error ''Invalid deploy function schedule for https v2'')"
proof -
  let ?s = "[(''v2'', JsBoolean True), (''deployFunction'', JsString ''schedule'')] :: int JsProps"
  have v2: "getProp exampleHttpsFunction ''v2'' = JsBoolean True"
    by (simp add: exampleHttpsFunction_def getProp_def)
  have df: "getProp exampleHttpsFunction ''deployFunction'' = JsString ''onCall''
            \<and> ''onCall'' \<in> set [''onCall'', ''onRequest'']"
    by (simp add: exampleHttpsFunction_def getProp_def)
  have p: "pathWithoutSuffix (getProp exampleHttpsFunction ''absolutePath'') = Inr ''/app/src/hello''"
    by (simp add: exampleHttpsFunction_def getProp_def pathWithoutSuffix_def)
  have n: "toStringJs exampleRuntime (getProp exampleHttpsFunction ''functionName'') = Inr ''hello''"
    by (simp add: exampleHttpsFunction_def getProp_def)
  have r: "removeAllOtherOptions exampleHttpsFunction
             = [(''region'', JsString ''europe-west1''), (''memory'', JsString ''1GiB'')]"
    by code_simp
  have oc: "toOptionsCode exampleRuntime (removeAllOtherOptions exampleHttpsFunction)
              = Inr ''{'region': 'europe-west1','memory': '1GiB',}''"
    unfolding r by (simp add: quoted_def)
  from toDeployIndexCode_v2 [OF v2, of exampleRuntime] df
  have "toDeployIndexCode exampleRuntime exampleHttpsFunction =
          andThen (pathWithoutSuffix (getProp exampleHttpsFunction ''absolutePath'')) (\<lambda>pws.
          andThen (toStringJs exampleRuntime (getProp exampleHttpsFunction ''functionName'')) (\<lambda>name.
          andThen (toOptionsCode exampleRuntime (removeAllOtherOptions exampleHttpsFunction))
            (\<lambda>optionsCode.
               Inr ([CHR 0x0A, CHR 0x09, CHR 0x09] @ ''import { '' @ ''onCall'' @ '' } from 'firebase-functions/v2/https';''
                     @ [CHR 0x0A, CHR 0x09, CHR 0x09] @ ''import functionStart from '' @ [CHR 0x27] @ pws @ [CHR 0x27] @ '';''
                     @ [CHR 0x0A, CHR 0x09, CHR 0x09] @ ''export const '' @ name @ '' = '' @ ''onCall'' @ ''(''
                     @ [CHR 0x0A, CHR 0x09, CHR 0x09, CHR 0x09, CHR 0x09] @ ''('' @ optionsCode @ ''),''
                     @ [CHR 0x0A, CHR 0x09, CHR 0x09, CHR 0x09, CHR 0x09] @ ''functionStart''
                     @ [CHR 0x0A, CHR 0x09, CHR 0x09, CHR 0x09] @ '');''
                     @ [CHR 0x0A, CHR 0x09]))))"
    by blast
  then have a: "toDeployIndexCode exampleRuntime exampleHttpsFunction
       = Inr ([CHR 0x0A, CHR 0x09, CHR 0x09] @ ''import { '' @ ''onCall'' @ '' } from 'firebase-functions/v2/https';''
              @ [CHR 0x0A, CHR 0x09, CHR 0x09] @ ''import functionStart from '' @ [CHR 0x27] @ ''/app/src/hello'' @ [CHR 0x27] @ '';''
              @ [CHR 0x0A, CHR 0x09, CHR 0x09] @ ''export const '' @ ''hello'' @ '' = '' @ ''onCall'' @ ''(''
              @ [CHR 0x0A, CHR 0x09, CHR 0x09, CHR 0x09, CHR 0x09] @ ''('' @ ''{'region': 'europe-west1','memory': '1GiB',}'' @ ''),''
              @ [CHR 0x0A, CHR 0x09, CHR 0x09, CHR 0x09, CHR 0x09] @ ''functionStart''
              @ [CHR 0x0A, CHR 0x09, CHR 0x09, CHR 0x09] @ '');''
              @ [CHR 0x0A, CHR 0x09])"
    unfolding p n oc by (simp add: andThen_def)
  have sv2: "getProp ?s ''v2'' = JsBoolean True"
    by (simp add: getProp_def)
  have sk: "getProp ?s ''deployFunction'' = JsString ''schedule''
            \<and> ''schedule'' \<notin> set [''onCall'', ''onRequest'']"
    by (simp add: getProp_def)
  from toDeployIndexCode_v2 [OF sv2, of exampleRuntime] sk
  have "toDeployIndexCode exampleRuntime ?s
          = Inl (Error (''Invalid deploy function '' @ ''schedule'' @ '' for https v2''))"
    by blast
  then have b: "toDeployIndexCode exampleRuntime ?s
          = Inl (Error ''Invalid deploy function schedule for https v2'')"
    by simp
  from v2 a sv2 b show ?thesis by simp
qed

section \<open>Properties of the local checksum\<close>

lemma set_insertEntry: "set (insertEntry cmp x ys) = insert x (set ys)"
  by (induction ys) auto

lemma set_sortEntries: "set (sortEntries cmp xs) = set xs"
  by (induction xs) (simp_all add: sortEntries_def set_insertEntry)

lemma distinct_insertEntry: "distinct (insertEntry cmp x ys) = (x \<notin> set ys \<and> distinct ys)"
  by (induction ys) (auto simp: set_insertEntry)

lemma distinct_sortEntries: "distinct (sortEntries cmp xs) = distinct xs"
  by (induction xs) (simp_all add: sortEntries_def distinct_insertEntry set_sortEntries [unfolded sortEntries_def])

lemma sorted_insertEntry:
  assumes "totalOrderOn cmp keys"
      and "fst ` set (x # ys) \<subseteq> set keys"
      and "sorted_wrt (\<lambda>a b. cmp (fst a) (fst b) \<le> 0) ys"
  shows "sorted_wrt (\<lambda>a b. cmp (fst a) (fst b) \<le> 0) (insertEntry cmp x ys)"
  using assms(2,3)
proof (induction ys)
  case Nil
  show ?case by simp
next
  case (Cons y ys)
  have tot: "cmp (fst x) (fst y) \<le> 0 \<or> cmp (fst y) (fst x) \<le> 0"
    using assms(1) Cons.prems(1) by (simp add: totalOrderOn_def)
  have trans: "cmp (fst x) (fst y) \<le> 0 \<Longrightarrow> cmp (fst y) (fst z) \<le> 0 \<Longrightarrow> cmp (fst x) (fst z) \<le> 0"
    if "z \<in> set ys" for z
    using assms(1) Cons.prems(1) that unfolding totalOrderOn_def
    by (metis image_subset_iff list.set_intros(1) list.set_intros(2))
  show ?case
  proof (cases "cmp (fst x) (fst y) \<le> 0")
    case True
    with Cons.prems(2) trans show ?thesis by auto
  next
    case False
    with tot have yx: "cmp (fst y) (fst x) \<le> 0" by simp
    have "sorted_wrt (\<lambda>a b. cmp (fst a) (fst b) \<le> 0) (insertEntry cmp x ys)"
      using Cons.IH Cons.prems by auto
    with False yx Cons.prems(2) show ?thesis
      by (auto simp: set_insertEntry)
  qed
qed

lemma sorted_sortEntries:
  assumes "totalOrderOn cmp keys"
      and "fst ` set xs \<subseteq> set keys"
  shows "sorted_wrt (\<lambda>a b. cmp (fst a) (fst b) \<le> 0) (sortEntries cmp xs)"
  using assms(2)
proof (induction xs)
  case Nil
  show ?case by (simp add: sortEntries_def)
next
  case (Cons x xs)
  then have "sorted_wrt (\<lambda>a b. cmp (fst a) (fst b) \<le> 0) (sortEntries cmp xs)"
    by auto
  moreover have "fst ` set (x # sortEntries cmp xs) \<subseteq> set keys"
    using Cons.prems by (simp add: set_sortEntries)
  ultimately have "sorted_wrt (\<lambda>a b. cmp (fst a) (fst b) \<le> 0)
                     (insertEntry cmp x (sortEntries cmp xs))"
    using sorted_insertEntry [OF assms(1)] by blast
  then show ?case by (simp add: sortEntries_def)
qed

lemma sorted_wrt_unique:
  assumes "sorted_wrt R xs" and "sorted_wrt R ys"
      and "distinct xs" and "distinct ys" and "set xs = set ys"
      and "\<And>a b. a \<in> set xs \<Longrightarrow> b \<in> set xs \<Longrightarrow> R a b \<Longrightarrow> R b a \<Longrightarrow> a = b"
  shows "xs = ys"
  using assms
proof (induction xs arbitrary: ys)
  case Nil
  then show ?case by simp
next
  case (Cons x xs)
  from Cons.prems(5) obtain y ys' where ys: "ys = y # ys'"
    by (cases ys) auto
  have xy: "x = y"
  proof (rule ccontr)
    assume ne: "x \<noteq> y"
    with Cons.prems(5) ys have "x \<in> set ys'" and "y \<in> set xs" by auto
    with Cons.prems(1,2) ys have "R y x" and "R x y" by auto
    moreover have "x \<in> set (x # xs)" and "y \<in> set (x # xs)"
      using Cons.prems(5) ys by auto
    ultimately have "x = y" using Cons.prems(6) by blast
    with ne show False by simp
  qed
  have "set xs = set ys'"
    using Cons.prems(3,4,5) ys xy by auto
  moreover have "\<And>a b. a \<in> set xs \<Longrightarrow> b \<in> set xs \<Longrightarrow> R a b \<Longrightarrow> R b a \<Longrightarrow> a = b"
    using Cons.prems(6) by auto
  ultimately have "xs = ys'"
    using Cons.IH [of ys'] Cons.prems(1,2,3,4) ys by auto
  with xy ys show ?case by simp
qed

lemma sortEntries_order_independent:
  assumes "totalOrderOn cmp (map fst e1)"
      and "distinct (map fst e1)" and "distinct (map fst e2)" and "set e1 = set e2"
  shows "sortEntries cmp e1 = sortEntries cmp e2"
proof (rule sorted_wrt_unique)
  show "sorted_wrt (\<lambda>a b. cmp (fst a) (fst b) \<le> 0) (sortEntries cmp e1)"
    using sorted_sortEntries [OF assms(1), of e1] by simp
  show "sorted_wrt (\<lambda>a b. cmp (fst a) (fst b) \<le> 0) (sortEntries cmp e2)"
    using sorted_sortEntries [OF assms(1), of e2] assms(4) by simp
  show "distinct (sortEntries cmp e1)"
    using assms(2) by (simp add: distinct_sortEntries distinct_map)
  show "distinct (sortEntries cmp e2)"
    using assms(3) by (simp add: distinct_sortEntries distinct_map)
  show "set (sortEntries cmp e1) = set (sortEntries cmp e2)"
    using assms(4) by (simp add: set_sortEntries)
next
  fix a b
  assume a: "a \<in> set (sortEntries cmp e1)" and b: "b \<in> set (sortEntries cmp e1)"
     and ab: "cmp (fst a) (fst b) \<le> 0" and ba: "cmp (fst b) (fst a) \<le> 0"
  from a b have m: "a \<in> set e1" "b \<in> set e1" by (simp_all add: set_sortEntries)
  with assms(1) ab ba have "fst a = fst b"
    unfolding totalOrderOn_def by (metis image_eqI list.set_map)
  moreover from assms(2) have "inj_on fst (set e1)" by (simp add: distinct_map)
  ultimately show "a = b" using m by (auto dest: inj_onD)
qed


text \<open>
  The sort makes the insertion order irrelevant whenever the comparator is a total order
  on the keys that ties no two distinct keys.
\<close>

lemma recordToString_order_independent:
  assumes "totalOrderOn (localeCompare h) (map fst e1)"
      and "distinct (map fst e1)" and "distinct (map fst e2)" and "set e1 = set e2"
  shows "recordToString h e1 = recordToString h e2"
  using sortEntries_order_independent [OF assms] by (simp add: recordToString_def)

text \<open>
  Claim C4 says that two environment mappings with the same key/value pairs give the same
  digest whatever their insertion orders, and line 311 says the same of the code: the
  keys are sorted so that the order does not matter. The sort compares with
  \<^verbatim>\<open>localeCompare\<close>, which returns 0 for two distinct keys that are canonically equivalent;
  being stable, it then leaves the two entries in insertion order. For the keys U+00E9 and
  U+0065 U+0301 the two insertion orders of the same two pairs are serialized differently,
  and the digests differ.
\<close>

theorem recordToString_keeps_insertion_order_of_tied_keys:
  "set [([CHR 0xC3, CHR 0xA9], Some ''1''), ([CHR ''e'', CHR 0xCC, CHR 0x81], Some ''2'')]
     = set [([CHR ''e'', CHR 0xCC, CHR 0x81], Some ''2''), ([CHR 0xC3, CHR 0xA9], Some ''1'')]
   \<and> localeCompare tieHost [CHR 0xC3, CHR 0xA9] [CHR ''e'', CHR 0xCC, CHR 0x81] = 0
   \<and> recordToString tieHost
         [([CHR 0xC3, CHR 0xA9], Some ''1''), ([CHR ''e'', CHR 0xCC, CHR 0x81], Some ''2'')]
       = [CHR 0xC3, CHR 0xA9] @ ''=1'' @ [CHR ''e'', CHR 0xCC, CHR 0x81] @ ''=2''
   \<and> recordToString tieHost
         [([CHR ''e'', CHR 0xCC, CHR 0x81], Some ''2''), ([CHR 0xC3, CHR 0xA9], Some ''1'')]
       = [CHR ''e'', CHR 0xCC, CHR 0x81] @ ''=2'' @ [CHR 0xC3, CHR 0xA9] @ ''=1''
   \<and> generateChecksum tieHost (''code'' @ recordToString tieHost
         [([CHR 0xC3, CHR 0xA9], Some ''1''), ([CHR ''e'', CHR 0xCC, CHR 0x81], Some ''2'')])
       \<noteq> generateChecksum tieHost (''code'' @ recordToString tieHost
         [([CHR ''e'', CHR 0xCC, CHR 0x81], Some ''2''), ([CHR 0xC3, CHR 0xA9], Some ''1'')])"
  by (simp add: insert_commute recordToString_def sortEntries_def entryText_def tieHost_def
      exampleHost_def canonicalCompare_def canonical_def generateChecksum_def)

lemma checkForChangesBody_read_fails:
  assumes "readFile h (join h (outputRoot d) ''src/index.js'') = Inl e"
  shows "checkForChangesBody h d = ([], Inl e)"
  using assms by (simp add: checkForChangesBody_def)

lemma checkForChangesBody_digest_fails:
  assumes "readFile h (join h (outputRoot d) ''src/index.js'') = Inr indexCode"
      and "generateChecksum h (snd (loggerCode h d indexCode) @ environmentString h d) = Inl e"
  shows "checkForChangesBody h d
           = (fst (loggerCode h d indexCode) @ fst (cachedChecksum h d), Inl e)"
proof -
  obtain log1 newCode where l: "loggerCode h d indexCode = (log1, newCode)"
    by (cases "loggerCode h d indexCode")
  obtain log2 cached where c: "cachedChecksum h d = (log2, cached)"
    by (cases "cachedChecksum h d")
  from assms l c show ?thesis by (simp add: checkForChangesBody_def)
qed

lemma checkForChangesBody_digest:
  assumes "readFile h (join h (outputRoot d) ''src/index.js'') = Inr indexCode"
      and "generateChecksum h (snd (loggerCode h d indexCode) @ environmentString h d)
             = Inr newChecksum"
  shows "checkForChangesBody h d =
           (if \<not> flagSet (force d)
               \<and> (case snd (cachedChecksum h d) of None \<Rightarrow> False
                   | Some c \<Rightarrow> c \<noteq> [] \<and> c = newChecksum)
            then (fst (loggerCode h d indexCode) @ fst (cachedChecksum h d) @ [unchangedNotice d],
                  Inr None)
            else (fst (loggerCode h d indexCode) @ fst (cachedChecksum h d),
                  Inr (Some (d\<lparr>checksum := Some newChecksum\<rparr>))))"
proof -
  obtain log1 newCode where l: "loggerCode h d indexCode = (log1, newCode)"
    by (cases "loggerCode h d indexCode")
  obtain log2 cached where c: "cachedChecksum h d = (log2, cached)"
    by (cases "cachedChecksum h d")
  from assms l c show ?thesis by (simp add: checkForChangesBody_def)
qed

lemma loggerCode_text:
  "snd (loggerCode h d indexCode) =
     indexCode @ (if hasLoggerFile d = Some True
                  then (case readFile h (join h (outputRoot d) ''src/logger.js'') of
                          Inl err \<Rightarrow> [] | Inr code \<Rightarrow> code)
                  else [])"
  by (simp add: loggerCode_def flagSet_def split: sum.splits)

lemma cachedChecksum_baseline:
  "snd (cachedChecksum h d) =
     (case checksum d of
        Some c \<Rightarrow> Some c
      | None \<Rightarrow>
          (case readFile h (join h (outputRoot d) ''checksum.md5'') of
             Inl err \<Rightarrow> None | Inr text \<Rightarrow> Some text))"
  by (simp add: cachedChecksum_def getCachedChecksum_def checksumFileName_def
      split: option.splits sum.splits)

text \<open>
  Claim C5, as amended. When the artifact is read and the digest of artifact, logger file
  and environment is computed: if \<^verbatim>\<open>force\<close> is not set and the baseline (the checksum the
  function carries, else the content of the local checksum file, and nothing when that file
  cannot be read) is the new digest and not empty, \<open>checkForChanges\<close> returns nothing and
  logs the skip notice; in every other case, so whenever \<^verbatim>\<open>force\<close> is set, it returns the
  function with the new digest as its checksum. When the artifact cannot be read or the
  digest cannot be computed, it returns the function as it came, without a new digest,
  whatever \<^verbatim>\<open>force\<close> is.
\<close>

theorem checkForChanges_decision:
  "(readFile h (join h (outputRoot d) ''src/index.js'') = Inr indexCode
      \<and> md5Hex h (indexCode @ (if hasLoggerFile d = Some True
                           then (case readFile h (join h (outputRoot d) ''src/logger.js'') of
                                   Inl err \<Rightarrow> [] | Inr code \<Rightarrow> code)
                           else [])
             @ (case environment d of None \<Rightarrow> ''undefined''
                | Some env \<Rightarrow> recordToString h env)) = Inr newChecksum
    \<longrightarrow>
      snd (checkForChanges h d) =
        (if force d \<noteq> Some True
            \<and> (case checksum d of
                      Some c \<Rightarrow> Some c
                    | None \<Rightarrow>
                        (case readFile h (join h (outputRoot d) ''checksum.md5'') of
                           Inl err \<Rightarrow> None | Inr text \<Rightarrow> Some text)) = Some newChecksum
            \<and> newChecksum \<noteq> []
         then None
         else Some (d\<lparr>checksum := Some newChecksum\<rparr>))
      \<and> (snd (checkForChanges h d) = None \<longrightarrow>
            LogInfo (functionName d @ '' has not changed, skipping deployment'')
              \<in> set (fst (checkForChanges h d))))
   \<and> (readFile h (join h (outputRoot d) ''src/index.js'') = Inl e \<longrightarrow>
        snd (checkForChanges h d) = Some d)
   \<and> (readFile h (join h (outputRoot d) ''src/index.js'') = Inr indexCode
        \<and> md5Hex h (indexCode @ (if hasLoggerFile d = Some True
                           then (case readFile h (join h (outputRoot d) ''src/logger.js'') of
                                   Inl err \<Rightarrow> [] | Inr code \<Rightarrow> code)
                           else [])
             @ (case environment d of None \<Rightarrow> ''undefined''
                | Some env \<Rightarrow> recordToString h env)) = Inl e
      \<longrightarrow> snd (checkForChanges h d) = Some d)"
proof (intro conjI impI)
  assume a: "readFile h (join h (outputRoot d) ''src/index.js'') = Inr indexCode
      \<and> md5Hex h (indexCode @ (if hasLoggerFile d = Some True
                           then (case readFile h (join h (outputRoot d) ''src/logger.js'') of
                                   Inl err \<Rightarrow> [] | Inr code \<Rightarrow> code)
                           else [])
             @ (case environment d of None \<Rightarrow> ''undefined''
                | Some env \<Rightarrow> recordToString h env)) = Inr newChecksum"
  then have r: "readFile h (join h (outputRoot d) ''src/index.js'') = Inr indexCode"
    and g: "generateChecksum h (snd (loggerCode h d indexCode) @ environmentString h d)
              = Inr newChecksum"
    by (simp_all add: generateChecksum_def loggerCode_text environmentString_def)
  have c: "(case snd (cachedChecksum h d) of None \<Rightarrow> False
            | Some c \<Rightarrow> c \<noteq> [] \<and> c = newChecksum)
           = (snd (cachedChecksum h d) = Some newChecksum \<and> newChecksum \<noteq> [])"
    by (cases "snd (cachedChecksum h d)") auto
  show "snd (checkForChanges h d) =
        (if force d \<noteq> Some True
            \<and> (case checksum d of
                      Some c \<Rightarrow> Some c
                    | None \<Rightarrow>
                        (case readFile h (join h (outputRoot d) ''checksum.md5'') of
                           Inl err \<Rightarrow> None | Inr text \<Rightarrow> Some text)) = Some newChecksum
            \<and> newChecksum \<noteq> []
         then None
         else Some (d\<lparr>checksum := Some newChecksum\<rparr>))"
    unfolding checkForChanges_def checkForChangesBody_digest [OF r g] c
      cachedChecksum_baseline [symmetric]
    by (simp add: flagSet_def)
  assume "snd (checkForChanges h d) = None"
  then show "LogInfo (functionName d @ '' has not changed, skipping deployment'')
              \<in> set (fst (checkForChanges h d))"
    unfolding checkForChanges_def checkForChangesBody_digest [OF r g] c
    by (simp add: unchangedNotice_def split: if_splits)
next
  assume "readFile h (join h (outputRoot d) ''src/index.js'') = Inl e"
  then show "snd (checkForChanges h d) = Some d"
    by (simp add: checkForChanges_def checkForChangesBody_read_fails)
next
  assume a: "readFile h (join h (outputRoot d) ''src/index.js'') = Inr indexCode
        \<and> md5Hex h (indexCode @ (if hasLoggerFile d = Some True
                           then (case readFile h (join h (outputRoot d) ''src/logger.js'') of
                                   Inl err \<Rightarrow> [] | Inr code \<Rightarrow> code)
                           else [])
             @ (case environment d of None \<Rightarrow> ''undefined''
                | Some env \<Rightarrow> recordToString h env)) = Inl e"
  then have r: "readFile h (join h (outputRoot d) ''src/index.js'') = Inr indexCode"
    and g: "generateChecksum h (snd (loggerCode h d indexCode) @ environmentString h d) = Inl e"
    by (simp_all add: generateChecksum_def loggerCode_text environmentString_def)
  show "snd (checkForChanges h d) = Some d"
    by (simp add: checkForChanges_def checkForChangesBody_digest_fails [OF r g])
qed

theorem checkForChanges_decision_witness:
  "readFile cachedHost (join cachedHost (outputRoot exampleFunction) ''src/index.js'')
     = Inr ''exports.f = 1;''
   \<and> readFile cachedHost (join cachedHost (outputRoot exampleFunction) ''checksum.md5'')
     = Inr ''md5:exports.f = 1;A=1B=2''
   \<and> md5Hex cachedHost ''exports.f = 1;A=1B=2'' = Inr ''md5:exports.f = 1;A=1B=2''
   \<and> snd (checkForChanges cachedHost exampleFunction) = None
   \<and> LogInfo ''f has not changed, skipping deployment''
         \<in> set (fst (checkForChanges cachedHost exampleFunction))
   \<and> snd (checkForChanges cachedHost (exampleFunction\<lparr>force := Some True\<rparr>))
       = Some (exampleFunction\<lparr>checksum := Some ''md5:exports.f = 1;A=1B=2'',
                                 force := Some True\<rparr>)
   \<and> snd (checkForChanges cachedHost (exampleFunction\<lparr>checksum := Some ''md5:old''\<rparr>))
       = Some (exampleFunction\<lparr>checksum := Some ''md5:exports.f = 1;A=1B=2''\<rparr>)
   \<and> snd (checkForChanges exampleHost exampleFunction)
       = Some (exampleFunction\<lparr>checksum := Some ''md5:exports.f = 1;A=1B=2''\<rparr>)
   \<and> snd (checkForChanges exampleHost (exampleFunction\<lparr>outputRoot := ''dist/g''\<rparr>))
       = Some (exampleFunction\<lparr>outputRoot := ''dist/g''\<rparr>)
   \<and> snd (checkForChanges brokenDigestHost exampleFunction) = Some exampleFunction"
proof -
  let ?new = "''md5:exports.f = 1;A=1B=2''"
  note t = checkForChanges_decision
  have ex: "functionName exampleFunction = ''f''" "outputRoot exampleFunction = ''dist/f''"
    "environment exampleFunction = Some [(''B'', Some ''2''), (''A'', Some ''1'')]"
    "hasLoggerFile exampleFunction = None" "checksum exampleFunction = None"
    "force exampleFunction = None"
    by (simp_all add: exampleFunction_def)
  have rs: "recordToString h [(''B'', Some ''2''), (''A'', Some ''1'')] = ''A=1B=2''"
    if "localeCompare h = codeUnitCompare" for h
    using that by (simp add: recordToString_def sortEntries_def entryText_def)
  have lc: "localeCompare cachedHost = codeUnitCompare" "localeCompare exampleHost = codeUnitCompare"
    "localeCompare brokenDigestHost = codeUnitCompare"
    by (simp_all add: cachedHost_def brokenDigestHost_def exampleHost_def)
  have f1: "readFile cachedHost (join cachedHost ''dist/f'' ''src/index.js'') = Inr ''exports.f = 1;''"
    "readFile cachedHost (join cachedHost ''dist/f'' ''checksum.md5'') = Inr ?new"
    "md5Hex cachedHost x = Inr (''md5:'' @ x)"
    for x
    by (simp_all add: cachedHost_def exampleHost_def exampleFiles_def)
  have f2: "readFile exampleHost (join exampleHost ''dist/f'' ''src/index.js'') = Inr ''exports.f = 1;''"
    "readFile exampleHost (join exampleHost ''dist/f'' ''checksum.md5'') = Inl (Error ''ENOENT'')"
    "readFile exampleHost (join exampleHost ''dist/g'' ''src/index.js'') = Inl (Error ''ENOENT'')"
    "md5Hex exampleHost x = Inr (''md5:'' @ x)"
    for x
    by (simp_all add: exampleHost_def exampleFiles_def)
  have f3: "readFile brokenDigestHost (join brokenDigestHost ''dist/f'' ''src/index.js'')
              = Inr ''exports.f = 1;''"
    "md5Hex brokenDigestHost x = Inl (Error ''unsupported'')"
    for x
    by (simp_all add: brokenDigestHost_def exampleHost_def exampleFiles_def)
  have 1: "snd (checkForChanges cachedHost exampleFunction) = None"
    using t [where h = cachedHost and d = exampleFunction and indexCode = "''exports.f = 1;''"
        and newChecksum = ?new and e = TypeError]
    by (simp add: ex rs lc f1)
  have 2: "LogInfo ''f has not changed, skipping deployment''
         \<in> set (fst (checkForChanges cachedHost exampleFunction))"
    using t [where h = cachedHost and d = exampleFunction and indexCode = "''exports.f = 1;''"
        and newChecksum = ?new and e = TypeError] 1
    by (simp add: ex rs lc f1)
  have 3: "snd (checkForChanges cachedHost (exampleFunction\<lparr>force := Some True\<rparr>))
       = Some (exampleFunction\<lparr>checksum := Some ?new, force := Some True\<rparr>)"
    using t [where h = cachedHost and d = "exampleFunction\<lparr>force := Some True\<rparr>"
        and indexCode = "''exports.f = 1;''" and newChecksum = ?new and e = TypeError]
    by (simp add: ex rs lc f1)
  have 4: "snd (checkForChanges cachedHost (exampleFunction\<lparr>checksum := Some ''md5:old''\<rparr>))
       = Some (exampleFunction\<lparr>checksum := Some ?new\<rparr>)"
    using t [where h = cachedHost and d = "exampleFunction\<lparr>checksum := Some ''md5:old''\<rparr>"
        and indexCode = "''exports.f = 1;''" and newChecksum = ?new and e = TypeError]
    by (simp add: ex rs lc f1)
  have 5: "snd (checkForChanges exampleHost exampleFunction)
       = Some (exampleFunction\<lparr>checksum := Some ?new\<rparr>)"
    using t [where h = exampleHost and d = exampleFunction and indexCode = "''exports.f = 1;''"
        and newChecksum = ?new and e = TypeError]
    by (simp add: ex rs lc f2)
  have 6: "snd (checkForChanges exampleHost (exampleFunction\<lparr>outputRoot := ''dist/g''\<rparr>))
       = Some (exampleFunction\<lparr>outputRoot := ''dist/g''\<rparr>)"
    using t [where h = exampleHost and d = "exampleFunction\<lparr>outputRoot := ''dist/g''\<rparr>"
        and indexCode = "[]" and newChecksum = "[]" and e = "Error ''ENOENT''"]
    by (simp add: f2)
  have 7: "snd (checkForChanges brokenDigestHost exampleFunction) = Some exampleFunction"
    using t [where h = brokenDigestHost and d = exampleFunction
        and indexCode = "''exports.f = 1;''" and newChecksum = "[]"
        and e = "Error ''unsupported''"]
    by (simp add: ex rs lc f3)
  from 1 2 3 4 5 6 7 f1(1,2) f1(3) [of "''exports.f = 1;A=1B=2''"] show ?thesis
    by (simp add: ex)
qed

text \<open>
  Claim C5 as stated fails where it says that a function which is not reported unchanged,
  a forced one in particular, is returned with the new digest: when the artifact cannot be
  read, the forced function comes back as it came, with the checksum it carried.
\<close>

theorem forced_function_without_new_digest_counterexample:
  "force (exampleFunction\<lparr>outputRoot := ''dist/g'', checksum := Some ''stale'',
                            force := Some True\<rparr>) = Some True
   \<and> readFile exampleHost (join exampleHost ''dist/g'' ''src/index.js'') = Inl (Error ''ENOENT'')
   \<and> snd (checkForChanges exampleHost
             (exampleFunction\<lparr>outputRoot := ''dist/g'', checksum := Some ''stale'',
                               force := Some True\<rparr>))
       = Some (exampleFunction\<lparr>outputRoot := ''dist/g'', checksum := Some ''stale'',
                                 force := Some True\<rparr>)"
  by (simp add: checkForChanges_def checkForChangesBody_def exampleHost_def exampleFiles_def)

text \<open>
  Claim C6, as amended. No error leaves \<open>checkForChanges\<close>. An error of the artifact read
  or of the digest computation is caught by the outer handler: a warning and the error at
  debug level are logged, and the function is returned as it came. An error of the baseline
  lookup is caught inside \<^verbatim>\<open>getCachedChecksum\<close> and logged at debug level only: there is
  then no baseline, and the function is returned with the new digest. An error reading the
  logger file is logged as an error and the check goes on with the artifact alone.
\<close>

theorem checkForChanges_fail_open:
  "(readFile h (join h (outputRoot d) ''src/index.js'') = Inl e \<longrightarrow>
      checkForChanges h d = ([changeCheckWarning d, LogDebug e], Some d))
   \<and> (readFile h (join h (outputRoot d) ''src/index.js'') = Inr indexCode
        \<and> generateChecksum h (snd (loggerCode h d indexCode) @ environmentString h d) = Inl e
      \<longrightarrow>
      checkForChanges h d =
        (fst (loggerCode h d indexCode) @ fst (cachedChecksum h d)
           @ [changeCheckWarning d, LogDebug e], Some d))
   \<and> (readFile h (join h (outputRoot d) ''src/index.js'') = Inr indexCode
        \<and> checksum d = None
        \<and> readFile h (join h (outputRoot d) checksumFileName) = Inl e
        \<and> generateChecksum h (snd (loggerCode h d indexCode) @ environmentString h d)
            = Inr newChecksum
      \<longrightarrow>
      checkForChanges h d =
        (fst (loggerCode h d indexCode) @ [LogDebug e],
         Some (d\<lparr>checksum := Some newChecksum\<rparr>)))
   \<and> (flagSet (hasLoggerFile d)
        \<and> readFile h (join h (outputRoot d) ''src/logger.js'') = Inl e
      \<longrightarrow>
      loggerCode h d indexCode = ([LogError ''getLoggerCode'' e], indexCode))"
proof (intro conjI impI)
  assume "readFile h (join h (outputRoot d) ''src/index.js'') = Inl e"
  then show "checkForChanges h d = ([changeCheckWarning d, LogDebug e], Some d)"
    by (simp add: checkForChanges_def checkForChangesBody_read_fails)
next
  assume "readFile h (join h (outputRoot d) ''src/index.js'') = Inr indexCode
        \<and> generateChecksum h (snd (loggerCode h d indexCode) @ environmentString h d) = Inl e"
  then show "checkForChanges h d =
        (fst (loggerCode h d indexCode) @ fst (cachedChecksum h d)
           @ [changeCheckWarning d, LogDebug e], Some d)"
    by (simp add: checkForChanges_def checkForChangesBody_digest_fails)
next
  assume a: "readFile h (join h (outputRoot d) ''src/index.js'') = Inr indexCode
        \<and> checksum d = None
        \<and> readFile h (join h (outputRoot d) checksumFileName) = Inl e
        \<and> generateChecksum h (snd (loggerCode h d indexCode) @ environmentString h d)
            = Inr newChecksum"
  then have c: "cachedChecksum h d = ([LogDebug e], None)"
    by (simp add: cachedChecksum_def getCachedChecksum_def)
  from a have "checkForChangesBody h d =
           (fst (loggerCode h d indexCode) @ [LogDebug e],
            Inr (Some (d\<lparr>checksum := Some newChecksum\<rparr>)))"
    by (simp add: checkForChangesBody_digest c)
  then show "checkForChanges h d =
        (fst (loggerCode h d indexCode) @ [LogDebug e],
         Some (d\<lparr>checksum := Some newChecksum\<rparr>))"
    by (simp add: checkForChanges_def)
next
  assume "flagSet (hasLoggerFile d)
        \<and> readFile h (join h (outputRoot d) ''src/logger.js'') = Inl e"
  then show "loggerCode h d indexCode = ([LogError ''getLoggerCode'' e], indexCode)"
    by (simp add: loggerCode_def)
qed

theorem checkForChanges_fail_open_witness:
  "readFile exampleHost
       (join exampleHost (outputRoot (exampleFunction\<lparr>outputRoot := ''dist/g''\<rparr>)) ''src/index.js'')
     = Inl (Error ''ENOENT'')
   \<and> checkForChanges exampleHost (exampleFunction\<lparr>outputRoot := ''dist/g''\<rparr>)
       = ([LogWarn ''Error checking for local changes with f.'', LogDebug (Error ''ENOENT'')],
          Some (exampleFunction\<lparr>outputRoot := ''dist/g''\<rparr>))
   \<and> checkForChanges brokenDigestHost exampleFunction
       = ([LogDebug (Error ''ENOENT''),
           LogWarn ''Error checking for local changes with f.'', LogDebug (Error ''unsupported'')],
          Some exampleFunction)
   \<and> checkForChanges exampleHost exampleFunction
       = ([LogDebug (Error ''ENOENT'')],
          Some (exampleFunction\<lparr>checksum := Some ''md5:exports.f = 1;A=1B=2''\<rparr>))
   \<and> loggerCode exampleHost
         (exampleFunction\<lparr>outputRoot := ''dist/g'', hasLoggerFile := Some True\<rparr>) ''code''
       = ([LogError ''getLoggerCode'' (Error ''ENOENT'')], ''code'')"
proof -
  let ?g = "exampleFunction\<lparr>outputRoot := ''dist/g''\<rparr>"
  let ?l = "exampleFunction\<lparr>outputRoot := ''dist/g'', hasLoggerFile := Some True\<rparr>"
  note t = checkForChanges_fail_open
  have r1: "readFile exampleHost (join exampleHost (outputRoot ?g) ''src/index.js'')
              = Inl (Error ''ENOENT'')"
    by (simp add: exampleHost_def exampleFiles_def)
  have w: "changeCheckWarning (d :: DeployFunctionData) = LogWarn (''Error checking for local changes with ''
             @ functionName d @ ''.'')" for d
    by (simp add: changeCheckWarning_def)
  have a: "checkForChanges exampleHost ?g
       = ([LogWarn ''Error checking for local changes with f.'', LogDebug (Error ''ENOENT'')],
          Some ?g)"
    using t [where h = exampleHost and d = ?g and e = "Error ''ENOENT''" and indexCode = "[]"
               and newChecksum = "[]"] r1
    by (simp add: w exampleFunction_def)
  have r2: "readFile h (join h (outputRoot exampleFunction) ''src/index.js'') = Inr ''exports.f = 1;''"
    if "h = exampleHost \<or> h = brokenDigestHost" for h
    using that by (auto simp: exampleHost_def brokenDigestHost_def exampleFiles_def exampleFunction_def)
  have l: "loggerCode h exampleFunction code = ([], code)" for h code
    by (simp add: loggerCode_def exampleFunction_def flagSet_def)
  have c: "checksum exampleFunction = None"
    by (simp add: exampleFunction_def)
  have r3: "readFile h (join h (outputRoot exampleFunction) checksumFileName) = Inl (Error ''ENOENT'')"
    if "h = exampleHost \<or> h = brokenDigestHost" for h
    using that
    by (auto simp: exampleHost_def brokenDigestHost_def exampleFiles_def exampleFunction_def
        checksumFileName_def)
  have cc: "cachedChecksum brokenDigestHost exampleFunction = ([LogDebug (Error ''ENOENT'')], None)"
    using r3 [of brokenDigestHost] c by (simp add: cachedChecksum_def getCachedChecksum_def)
  have es: "environmentString exampleHost exampleFunction = ''A=1B=2''"
    by (simp add: environmentString_def exampleFunction_def recordToString_def sortEntries_def
        entryText_def exampleHost_def)
  have g1: "generateChecksum brokenDigestHost x = Inl (Error ''unsupported'')" for x
    by (simp add: generateChecksum_def brokenDigestHost_def)
  have g2: "generateChecksum exampleHost x = Inr (''md5:'' @ x)" for x
    by (simp add: generateChecksum_def exampleHost_def)
  have b: "checkForChanges brokenDigestHost exampleFunction
       = ([LogDebug (Error ''ENOENT''),
           LogWarn ''Error checking for local changes with f.'', LogDebug (Error ''unsupported'')],
          Some exampleFunction)"
    using t [where h = brokenDigestHost and d = exampleFunction and e = "Error ''unsupported''"
               and indexCode = "''exports.f = 1;''" and newChecksum = "[]"]
      r2 [of brokenDigestHost] g1
    by (simp add: l cc w) (simp add: exampleFunction_def)
  have d: "checkForChanges exampleHost exampleFunction
       = ([LogDebug (Error ''ENOENT'')],
          Some (exampleFunction\<lparr>checksum := Some ''md5:exports.f = 1;A=1B=2''\<rparr>))"
    using t [where h = exampleHost and d = exampleFunction and e = "Error ''ENOENT''"
               and indexCode = "''exports.f = 1;''"
               and newChecksum = "''md5:exports.f = 1;A=1B=2''"]
      r2 [of exampleHost] r3 [of exampleHost] c
    by (simp add: l es g2)
  have f: "flagSet (hasLoggerFile ?l)
           \<and> readFile exampleHost (join exampleHost (outputRoot ?l) ''src/logger.js'')
             = Inl (Error ''ENOENT'')"
    by (simp add: flagSet_def exampleHost_def exampleFiles_def)
  have lg: "loggerCode exampleHost ?l ''code'' = ([LogError ''getLoggerCode'' (Error ''ENOENT'')], ''code'')"
    using t [where h = exampleHost and d = ?l and e = "Error ''ENOENT''" and indexCode = "''code''"
               and newChecksum = "[]"] f
    by simp
  from r1 a b d lg show ?thesis by simp
qed

text \<open>
  Claim C6 as stated fails for the baseline lookup: the read of the checksum file fails,
  and the log holds that error at debug level and no warning. It fails for the read of the
  logger file as well: that error is logged as an error, and the function, whose baseline
  is the digest of the artifact alone, is reported unchanged.
\<close>

theorem baseline_error_is_not_a_warning_counterexample:
  "checksum exampleFunction = None
   \<and> readFile exampleHost (join exampleHost (outputRoot exampleFunction) checksumFileName)
       = Inl (Error ''ENOENT'')
   \<and> fst (checkForChanges exampleHost exampleFunction) = [LogDebug (Error ''ENOENT'')]
   \<and> readFile exampleHost (join exampleHost ''dist/f'' ''src/logger.js'') = Inr ''exports.log = 2;''
   \<and> readFile brokenLoggerHost (join brokenLoggerHost ''dist/f'' ''src/logger.js'')
       = Inl (Error ''EACCES'')
   \<and> checkForChanges brokenLoggerHost
         (exampleFunction\<lparr>hasLoggerFile := Some True,
                           checksum := Some ''md5:exports.f = 1;A=1B=2''\<rparr>)
       = ([LogError ''getLoggerCode'' (Error ''EACCES''),
           LogInfo ''f has not changed, skipping deployment''], None)"
  by (simp add: checkForChanges_def checkForChangesBody_def loggerCode_def cachedChecksum_def
      getCachedChecksum_def environmentString_def recordToString_def sortEntries_def entryText_def
      generateChecksum_def exampleHost_def brokenLoggerHost_def exampleFiles_def
      exampleFunction_def flagSet_def checksumFileName_def unchangedNotice_def)

section \<open>Properties of the executor\<close>

lemma checkForChanges_writes_checksum_only:
  assumes "snd (checkForChanges h d) = Some d'"
  shows "d' = d\<lparr>checksum := checksum d'\<rparr>"
proof (cases "readFile h (join h (outputRoot d) ''src/index.js'')")
  case (Inl e)
  with assms show ?thesis
    by (simp add: checkForChanges_def checkForChangesBody_read_fails)
next
  case (Inr indexCode)
  show ?thesis
  proof (cases "generateChecksum h (snd (loggerCode h d indexCode) @ environmentString h d)")
    case (Inl e)
    with Inr assms show ?thesis
      by (simp add: checkForChanges_def checkForChangesBody_digest_fails)
  next
    case g: (Inr newChecksum)
    from assms show ?thesis
      unfolding checkForChanges_def checkForChangesBody_digest [OF Inr g]
      by (auto split: if_splits)
  qed
qed

lemma setChecksumOfFirst_frame:
  "length (setChecksumOfFirst name c files) = length files
   \<and> (\<forall>i < length files.
         setChecksumOfFirst name c files ! i
           = (files ! i)\<lparr>checksum := checksum (setChecksumOfFirst name c files ! i)\<rparr>)"
proof (induction files)
  case Nil
  show ?case by simp
next
  case (Cons f fs)
  show ?case
  proof (cases "functionName f = name")
    case True
    then show ?thesis by (auto simp: nth_Cons split: nat.splits)
  next
    case False
    with Cons show ?thesis by (auto simp: nth_Cons split: nat.splits)
  qed
qed

lemma mergeOnlineChecksum_frame:
  "length (mergeOnlineChecksum oc files) = length files
   \<and> (\<forall>i < length files.
         mergeOnlineChecksum oc files ! i
           = (files ! i)\<lparr>checksum := checksum (mergeOnlineChecksum oc files ! i)\<rparr>)"
proof (cases oc)
  case None
  then show ?thesis by (simp add: mergeOnlineChecksum_def)
next
  case (Some entries)
  have "length (foldl (\<lambda>files (name, c). setChecksumOfFirst name c files) files entries)
          = length files
        \<and> (\<forall>i < length files.
              foldl (\<lambda>files (name, c). setChecksumOfFirst name c files) files entries ! i
                = (files ! i)\<lparr>checksum := checksum
                     (foldl (\<lambda>files (name, c). setChecksumOfFirst name c files) files entries ! i)\<rparr>)"
  proof (induction entries arbitrary: files)
    case Nil
    show ?case by simp
  next
    case (Cons entry entries)
    obtain name c where e: "entry = (name, c)" by (cases entry)
    let ?fs = "setChecksumOfFirst name c files"
    let ?r = "foldl (\<lambda>files (name, c). setChecksumOfFirst name c files) ?fs entries"
    note ih = Cons.IH [of ?fs]
    note st = setChecksumOfFirst_frame [of name c files]
    have len: "length ?r = length files" using ih st by simp
    have "?r ! i = (files ! i)\<lparr>checksum := checksum (?r ! i)\<rparr>" if i: "i < length files" for i
    proof -
      from ih st i have 1: "?r ! i = (?fs ! i)\<lparr>checksum := checksum (?r ! i)\<rparr>" by simp
      from st i have 2: "?fs ! i = (files ! i)\<lparr>checksum := checksum (?fs ! i)\<rparr>" by simp
      show ?thesis by (subst 1, subst 2) simp
    qed
    with len show ?case by (simp add: e)
  qed
  with Some show ?thesis by (simp add: mergeOnlineChecksum_def)
qed

lemma map_filter_deploy_subset:
  assumes "\<forall>f f'. dep f = Some f' \<longrightarrow> f' = f"
  shows "set (List.map_filter dep fs) \<subseteq> set fs"
proof
  fix x
  assume "x \<in> set (List.map_filter dep fs)"
  then obtain f where "f \<in> set fs" and "dep f = Some x"
    by (auto simp: List.map_filter_def)
  with assms show "x \<in> set fs" by auto
qed

lemma stillFailing_subset: "set (stillFailing redeployed failed) \<subseteq> set failed"
  by (auto simp: stillFailing_def)

lemma redeployLoop_members:
  "(\<forall>i f f'. deployFunction i f = Some f' \<longrightarrow> f' = f) \<Longrightarrow>
   set (deployedFiles st) \<subseteq> S \<Longrightarrow> set (failedFunctions st) \<subseteq> S \<Longrightarrow>
   (\<forall>xs \<in> set (dispatched st). set xs \<subseteq> S) \<Longrightarrow>
   set (deployedFiles (redeployLoop deployFunction amount i st)) \<subseteq> S
   \<and> (\<forall>xs \<in> set (dispatched (redeployLoop deployFunction amount i st)). set xs \<subseteq> S)"
proof (induction deployFunction amount i st rule: redeployLoop.induct)
  case (1 deployFunction amount i st)
  note dep = "1.prems"(1) and d = "1.prems"(2) and f = "1.prems"(3) and r = "1.prems"(4)
  show ?case
  proof (cases "int i < amount")
    case False
    then have "redeployLoop deployFunction amount i st = st"
      by (subst redeployLoop.simps) simp
    with d r show ?thesis by simp
  next
    case True
    let ?re = "List.map_filter (deployFunction i) (failedFunctions st)"
    let ?st1 = "st\<lparr>dispatched := dispatched st @ [failedFunctions st]\<rparr>"
    let ?st2 = "?st1\<lparr>failedFunctions := stillFailing ?re (failedFunctions st),
                       deployedFiles := deployedFiles st @ ?re\<rparr>"
    from dep have "set ?re \<subseteq> set (failedFunctions st)"
      by (intro map_filter_deploy_subset) blast
    with f have re: "set ?re \<subseteq> S" by blast
    from stillFailing_subset [of ?re "failedFunctions st"] f
    have sf: "set (stillFailing ?re (failedFunctions st)) \<subseteq> S" by blast
    have r1: "\<forall>xs \<in> set (dispatched ?st1). set xs \<subseteq> S" using r f by auto
    show ?thesis
    proof (cases "length ?re = 0")
      case e: True
      have eq: "redeployLoop deployFunction amount i st
                  = redeployLoop deployFunction amount (Suc i) ?st1"
        using True e by (subst redeployLoop.simps) (simp add: Let_def)
      from "1.IH"(1) [OF True refl refl e dep] d f r1 show ?thesis
        unfolding eq by simp
    next
      case ne: False
      have d2: "set (deployedFiles ?st2) \<subseteq> S" using d re by simp
      have f2: "set (failedFunctions ?st2) \<subseteq> S" using sf by simp
      have r2: "\<forall>xs \<in> set (dispatched ?st2). set xs \<subseteq> S" using r1 by simp
      show ?thesis
      proof (cases "length (failedFunctions ?st2) = 0")
        case z: True
        have eq: "redeployLoop deployFunction amount i st = ?st2"
          using True ne z by (subst redeployLoop.simps) (simp add: Let_def)
        from d2 r2 show ?thesis unfolding eq by blast
      next
        case nz: False
        have eq: "redeployLoop deployFunction amount i st
                    = redeployLoop deployFunction amount (Suc i) ?st2"
          using True ne nz by (subst redeployLoop.simps) (simp add: Let_def)
        from "1.IH"(2) [OF True refl refl ne refl nz dep d2 f2 r2] show ?thesis
          unfolding eq .
      qed
    qed
  qed
qed

lemma executorDeploy_members:
  assumes "\<forall>i f f'. deployFunction i f = Some f' \<longrightarrow> f' = f"
  shows "set (deployedFilesAfter (executorDeploy deployFunction options fs)) \<subseteq> set fs
         \<and> set (deployableFunctionsAfter (executorDeploy deployFunction options fs)) \<subseteq> set fs
         \<and> (\<forall>xs \<in> set (retryRounds (executorDeploy deployFunction options fs)).
               set xs \<subseteq> set fs)"
proof -
  let ?deployed = "List.map_filter (deployFunction 0) fs"
  let ?st0 = "\<lparr>deployedFiles = fs, failedFunctions = ?deployed, dispatched = []\<rparr>"
  from assms have dp: "set ?deployed \<subseteq> set fs"
    by (intro map_filter_deploy_subset) blast
  from assms have dep: "\<forall>i f f'. deployFunction (Suc i) f = Some f' \<longrightarrow> f' = f" by blast
  have loop: "set (deployedFiles (redeployLoop (\<lambda>i. deployFunction (Suc i)) amount 0 ?st0))
                \<subseteq> set fs
              \<and> (\<forall>xs \<in> set (dispatched
                     (redeployLoop (\<lambda>i. deployFunction (Suc i)) amount 0 ?st0)).
                    set xs \<subseteq> set fs)" for amount
    using dp by (intro redeployLoop_members [OF dep]) simp_all
  have "set (deployedFiles (redeployFailedFunctions (\<lambda>i. deployFunction (Suc i))
               fs ?deployed options)) \<subseteq> set fs
        \<and> (\<forall>xs \<in> set (dispatched (redeployFailedFunctions (\<lambda>i. deployFunction (Suc i))
               fs ?deployed options)). set xs \<subseteq> set fs)"
    using loop by (simp add: redeployFailedFunctions_def Let_def split: option.splits)
  with dp show ?thesis
    by (simp add: executorDeploy_def Let_def)
qed

lemma set_setEntry: "set (setEntry acc k v) \<subseteq> insert (k, v) (set acc)"
  by (induction acc) (auto split: if_splits)

lemma updateOnlineChecksum_entries:
  assumes "updateOnlineChecksum deployed = Some m" and "(name, c) \<in> set m"
  shows "\<exists>f \<in> set deployed. functionName f = name \<and> checksum f = Some c"
proof -
  have inv: "set (foldl (\<lambda>acc f. case checksum f of
                                     None \<Rightarrow> acc
                                   | Some c \<Rightarrow> setEntry acc (functionName f) c) acc fs)
               \<subseteq> set acc \<union> {(functionName f, c) | f c. f \<in> set fs \<and> checksum f = Some c}"
    for acc and fs :: "'a DeployFunctionData_scheme list"
  proof (induction fs arbitrary: acc)
    case Nil
    show ?case by simp
  next
    case (Cons g gs)
    let ?new = "{(functionName f, c) | f c. f \<in> set (g # gs) \<and> checksum f = Some c}"
    have old: "{(functionName f, c) | f c. f \<in> set gs \<and> checksum f = Some c} \<subseteq> ?new"
      by auto
    show ?case
    proof (cases "checksum g")
      case None
      from Cons [of acc] old
      have "set (foldl (\<lambda>acc f. case checksum f of
                                     None \<Rightarrow> acc
                                   | Some c \<Rightarrow> setEntry acc (functionName f) c) acc gs)
              \<subseteq> set acc \<union> ?new"
        by blast
      with None show ?thesis by simp
    next
      case (Some c)
      have "(functionName g, c) \<in> ?new" using Some by auto
      with set_setEntry [of acc "functionName g" c]
      have "set (setEntry acc (functionName g) c) \<subseteq> set acc \<union> ?new" by blast
      with Cons [of "setEntry acc (functionName g) c"] old
      have "set (foldl (\<lambda>acc f. case checksum f of
                                     None \<Rightarrow> acc
                                   | Some c \<Rightarrow> setEntry acc (functionName f) c)
                   (setEntry acc (functionName g) c) gs)
              \<subseteq> set acc \<union> ?new"
        by blast
      with Some show ?thesis by simp
    qed
  qed
  from assms(1) have "m = foldl (\<lambda>acc f. case checksum f of
                                     None \<Rightarrow> acc
                                   | Some c \<Rightarrow> setEntry acc (functionName f) c)
                            [] (filter checksumSet deployed)"
    by (simp add: updateOnlineChecksum_def Let_def split: list.splits)
  with inv [of "[]" "filter checksumSet deployed"] assms(2)
  have "(name, c) \<in> {(functionName f, c) | f c.
           f \<in> set (filter checksumSet deployed) \<and> checksum f = Some c}"
    by auto
  then show ?thesis by auto
qed

lemma executor_buildableFilesAfter:
  "length (buildableFilesAfter (executor h deployFunction options oc files)) = length files
   \<and> (\<forall>i < length files.
         buildableFilesAfter (executor h deployFunction options oc files) ! i
           = (files ! i)\<lparr>checksum := checksum
                (buildableFilesAfter (executor h deployFunction options oc files) ! i)\<rparr>)"
proof -
  let ?merged = "mergeOnlineChecksum oc files"
  let ?after = "map (\<lambda>f. case snd (checkForChanges h f) of None \<Rightarrow> f | Some f' \<Rightarrow> f') ?merged"
  note m = mergeOnlineChecksum_frame [of oc files]
  have b: "buildableFilesAfter (executor h deployFunction options oc files) = ?after"
    by (simp add: executor_def Let_def)
  have "?after ! i = (files ! i)\<lparr>checksum := checksum (?after ! i)\<rparr>" if i: "i < length files" for i
  proof -
    from m i have 1: "?merged ! i = (files ! i)\<lparr>checksum := checksum (?merged ! i)\<rparr>" by simp
    have 2: "?after ! i = (?merged ! i)\<lparr>checksum := checksum (?after ! i)\<rparr>"
    proof (cases "snd (checkForChanges h (?merged ! i))")
      case None
      with m i show ?thesis by simp
    next
      case (Some f')
      from checkForChanges_writes_checksum_only [OF Some] Some m i show ?thesis by simp
    qed
    show ?thesis by (subst 2, subst 1) simp
  qed
  with m show ?thesis unfolding b by simp
qed

lemma executor_deployableFunctions:
  "set (List.map_filter (\<lambda>f. snd (checkForChanges h f)) merged)
     \<subseteq> set (map (\<lambda>f. case snd (checkForChanges h f) of None \<Rightarrow> f | Some f' \<Rightarrow> f') merged)"
proof
  fix x
  assume "x \<in> set (List.map_filter (\<lambda>f. snd (checkForChanges h f)) merged)"
  then obtain f where f: "f \<in> set merged" and x: "snd (checkForChanges h f) = Some x"
    by (auto simp: List.map_filter_def)
  from x have "x = (case snd (checkForChanges h f) of None \<Rightarrow> f | Some f' \<Rightarrow> f')" by simp
  from this f show "x \<in> set (map (\<lambda>f. case snd (checkForChanges h f) of None \<Rightarrow> f | Some f' \<Rightarrow> f')
                          merged)"
    unfolding set_map by (rule image_eqI)
qed

lemma deployOneFunction_returns_its_argument:
  "\<forall>i f f'. deployOneFunction succeeds i f = Some f' \<longrightarrow> f' = f"
  by (simp add: deployOneFunction_def)

text \<open>
  Claim C9, as amended. Change detection, deployment and cache persistence write one
  field of a function's data, \<^verbatim>\<open>checksum\<close>; every other field, the \<open>more\<close> part included,
  holds the value it had when the data came from project discovery. What
  \<open>checkForChanges\<close> returns is its argument with at most the checksum changed, and the
  merge of the online checksum keeps the list of buildable files, position by position, up
  to the checksum. After a whole run of the executor the buildable files are, position by
  position, the ones it started from up to the checksum; the functions that were
  deployed, handed to a retry round or kept for the update of the checksums are among
  them; every local checksum file is written at the output root of one of them and holds
  its checksum, and the online update maps names of theirs to their checksums.
\<close>

theorem only_checksum_is_written:
  "(snd (checkForChanges h d) = Some d' \<longrightarrow> d' = d\<lparr>checksum := checksum d'\<rparr>)
   \<and> length (mergeOnlineChecksum oc files) = length files
   \<and> (\<forall>i < length files.
         mergeOnlineChecksum oc files ! i
           = (files ! i)\<lparr>checksum := checksum (mergeOnlineChecksum oc files ! i)\<rparr>)
   \<and> length (buildableFilesAfter (executor h (deployOneFunction succeeds) options oc files)) = length files
   \<and> (\<forall>i < length files.
         buildableFilesAfter (executor h (deployOneFunction succeeds) options oc files) ! i
           = (files ! i)\<lparr>checksum := checksum (buildableFilesAfter (executor h (deployOneFunction succeeds) options oc files) ! i)\<rparr>)
   \<and> set (deployedFilesAfter (deployOutcome (executor h (deployOneFunction succeeds) options oc files))) \<subseteq> set (buildableFilesAfter (executor h (deployOneFunction succeeds) options oc files))
   \<and> set (deployableFunctionsAfter (deployOutcome (executor h (deployOneFunction succeeds) options oc files))) \<subseteq> set (buildableFilesAfter (executor h (deployOneFunction succeeds) options oc files))
   \<and> (\<forall>xs \<in> set (retryRounds (deployOutcome (executor h (deployOneFunction succeeds) options oc files))). set xs \<subseteq> set (buildableFilesAfter (executor h (deployOneFunction succeeds) options oc files)))
   \<and> set (deployedFilesToUpdateChecksum (executor h (deployOneFunction succeeds) options oc files)) \<subseteq> set (buildableFilesAfter (executor h (deployOneFunction succeeds) options oc files))
   \<and> (\<forall>(path, c) \<in> set (localWrites (executor h (deployOneFunction succeeds) options oc files)).
         \<exists>f \<in> set (buildableFilesAfter (executor h (deployOneFunction succeeds) options oc files)).
           path = join h (outputRoot f) ''checksum.md5'' \<and> checksum f = Some c)
   \<and> (\<forall>m. onlineUpdate (executor h (deployOneFunction succeeds) options oc files) = Some m \<longrightarrow>
         (\<forall>(name, c) \<in> set m.
            \<exists>f \<in> set (buildableFilesAfter (executor h (deployOneFunction succeeds) options oc files)). functionName f = name \<and> checksum f = Some c))"
proof -
  let ?merged = "mergeOnlineChecksum oc files"
  let ?after = "map (\<lambda>f. case snd (checkForChanges h f) of None \<Rightarrow> f | Some f' \<Rightarrow> f') ?merged"
  let ?fs = "List.map_filter (\<lambda>f. snd (checkForChanges h f)) ?merged"
  let ?out = "executorDeploy (deployOneFunction succeeds) options ?fs"
  let ?upd = "filter checksumSet (deployedFilesAfter ?out)"
  have b: "buildableFilesAfter (executor h (deployOneFunction succeeds) options oc files) = ?after"
    and o: "deployOutcome (executor h (deployOneFunction succeeds) options oc files) = ?out"
    and u: "deployedFilesToUpdateChecksum (executor h (deployOneFunction succeeds) options oc files) = ?upd"
    and l: "localWrites (executor h (deployOneFunction succeeds) options oc files) = List.map_filter (cacheChecksumLocal h) ?upd"
    and n: "onlineUpdate (executor h (deployOneFunction succeeds) options oc files) = updateOnlineChecksum ?upd"
    by (simp_all add: executor_def Let_def)
  note sub = executor_deployableFunctions [of h ?merged]
  note mem = executorDeploy_members [OF deployOneFunction_returns_its_argument,
      of succeeds options ?fs]
  from mem sub have 1: "set (deployedFilesAfter ?out) \<subseteq> set ?after"
    and 2: "set (deployableFunctionsAfter ?out) \<subseteq> set ?after"
    and 3: "\<forall>xs \<in> set (retryRounds ?out). set xs \<subseteq> set ?after"
    by blast+
  from 1 have 4: "set ?upd \<subseteq> set ?after" by auto
  have 5: "\<forall>(path, c) \<in> set (List.map_filter (cacheChecksumLocal h) ?upd).
             \<exists>f \<in> set ?after. path = join h (outputRoot f) ''checksum.md5'' \<and> checksum f = Some c"
  proof (clarify)
    fix path c
    assume "(path, c) \<in> set (List.map_filter (cacheChecksumLocal h) ?upd)"
    then obtain f where f: "f \<in> set ?upd" and w: "cacheChecksumLocal h f = Some (path, c)"
      by (auto simp: List.map_filter_def)
    from w have "path = join h (outputRoot f) ''checksum.md5'' \<and> checksum f = Some c"
      by (auto simp: cacheChecksumLocal_def checksumFileName_def split: option.splits if_splits)
    with f 4 show "\<exists>f \<in> set ?after.
        path = join h (outputRoot f) ''checksum.md5'' \<and> checksum f = Some c"
      by blast
  qed
  have 6: "\<forall>m. updateOnlineChecksum ?upd = Some m \<longrightarrow>
         (\<forall>(name, c) \<in> set m.
            \<exists>f \<in> set ?after. functionName f = name \<and> checksum f = Some c)"
  proof (clarify)
    fix m name c
    assume "updateOnlineChecksum ?upd = Some m" and "(name, c) \<in> set m"
    from updateOnlineChecksum_entries [OF this] 4
    show "\<exists>f \<in> set ?after. functionName f = name \<and> checksum f = Some c"
      by blast
  qed
  note frame = executor_buildableFilesAfter [of h "deployOneFunction succeeds" options oc files]
  note cfc = checkForChanges_writes_checksum_only [of h d d']
  note mrg = mergeOnlineChecksum_frame [of oc files]
  from cfc have c1: "snd (checkForChanges h d) = Some d' \<longrightarrow> d' = d\<lparr>checksum := checksum d'\<rparr>"
    by blast
  show ?thesis
    unfolding u l n o
    using c1 mrg frame 1 2 3 4 5 6 unfolding b
    by (intro conjI) blast+
qed

theorem only_checksum_is_written_witness:
  "snd (checkForChanges exampleHost exampleFunction)
     = Some (exampleFunction\<lparr>checksum := Some ''md5:exports.f = 1;A=1B=2''\<rparr>)
   \<and> (0 :: nat) < length [exampleFunction]
   \<and> mergeOnlineChecksum (Some [(''f'', ''abc'')]) [exampleFunction] ! 0
       = exampleFunction\<lparr>checksum := Some ''abc''\<rparr>
   \<and> buildableFilesAfter (executor exampleHost (deployOneFunction (\<lambda>round name. True)) retryTwice
        (Some [(''f'', ''abc'')]) [exampleFunction]) ! 0
       = exampleFunction\<lparr>checksum := Some ''md5:exports.f = 1;A=1B=2''\<rparr>
   \<and> deployedFilesAfter (deployOutcome (executor exampleHost (deployOneFunction (\<lambda>round name. True)) retryTwice
        (Some [(''f'', ''abc'')]) [exampleFunction]))
       = [exampleFunction\<lparr>checksum := Some ''md5:exports.f = 1;A=1B=2''\<rparr>]
   \<and> deployedFilesToUpdateChecksum (executor exampleHost (deployOneFunction (\<lambda>round name. True)) retryTwice
        (Some [(''f'', ''abc'')]) [exampleFunction])
       = [exampleFunction\<lparr>checksum := Some ''md5:exports.f = 1;A=1B=2''\<rparr>]
   \<and> localWrites (executor exampleHost (deployOneFunction (\<lambda>round name. True)) retryTwice
        (Some [(''f'', ''abc'')]) [exampleFunction]) = [(''dist/f/checksum.md5'', ''md5:exports.f = 1;A=1B=2'')]
   \<and> onlineUpdate (executor exampleHost (deployOneFunction (\<lambda>round name. True)) retryTwice
        (Some [(''f'', ''abc'')]) [exampleFunction]) = Some [(''f'', ''md5:exports.f = 1;A=1B=2'')]"
proof -
  let ?d' = "exampleFunction\<lparr>checksum := Some ''md5:exports.f = 1;A=1B=2''\<rparr>"
  have a: "snd (checkForChanges exampleHost exampleFunction) = Some ?d'"
    by (simp add: checkForChanges_def checkForChangesBody_def loggerCode_def cachedChecksum_def
      getCachedChecksum_def environmentString_def recordToString_def sortEntries_def entryText_def
      generateChecksum_def exampleHost_def exampleFiles_def exampleFunction_def flagSet_def
      checksumFileName_def)
  have m: "mergeOnlineChecksum (Some [(''f'', ''abc'')]) [exampleFunction]
             = [exampleFunction\<lparr>checksum := Some ''abc''\<rparr>]"
    by (simp add: mergeOnlineChecksum_def exampleFunction_def)
  have r: "executor exampleHost (deployOneFunction (\<lambda>round name. True)) retryTwice
        (Some [(''f'', ''abc'')]) [exampleFunction]
      = \<lparr>buildableFilesAfter = [?d'],
         deployOutcome = \<lparr>deployableFunctionsAfter = [?d'], deployedFilesAfter = [?d'],
                          retryRounds = []\<rparr>,
         deployedFilesToUpdateChecksum = [?d'],
         localWrites = [(''dist/f/checksum.md5'', ''md5:exports.f = 1;A=1B=2'')],
         onlineUpdate = Some [(''f'', ''md5:exports.f = 1;A=1B=2'')]\<rparr>"
    by code_simp
  from only_checksum_is_written [where h = exampleHost and d = exampleFunction and d' = ?d'
      and oc = "Some [(''f'', ''abc'')]" and files = "[exampleFunction]"
      and succeeds = "\<lambda>round name. True" and options = retryTwice] a m
  show ?thesis unfolding r by simp
qed

text \<open>
  Claim C9 as stated fails: the checksum field is assigned, by the merge of the online
  checksum and by \<open>checkForChanges\<close>.
\<close>

theorem checksum_field_is_mutated_counterexample:
  "checksum exampleFunction = None
   \<and> map checksum (mergeOnlineChecksum (Some [(''f'', ''abc'')]) [exampleFunction]) = [Some ''abc'']
   \<and> map_option checksum (snd (checkForChanges exampleHost exampleFunction))
       = Some (Some ''md5:exports.f = 1;A=1B=2'')"
  by (simp add: mergeOnlineChecksum_def checkForChanges_def checkForChangesBody_def loggerCode_def
      cachedChecksum_def getCachedChecksum_def environmentString_def recordToString_def
      sortEntries_def entryText_def generateChecksum_def exampleHost_def exampleFiles_def
      exampleFunction_def flagSet_def checksumFileName_def)

lemma redeployLoop_rounds:
  "length (dispatched (redeployLoop deployFunction amount i st))
     \<le> length (dispatched st) + nat (amount - int i)"
proof (induction deployFunction amount i st rule: redeployLoop.induct)
  case (1 deployFunction amount i st)
  show ?case
  proof (cases "int i < amount")
    case False
    then show ?thesis by (subst redeployLoop.simps) simp
  next
    case True
    let ?re = "List.map_filter (deployFunction i) (failedFunctions st)"
    let ?st1 = "st\<lparr>dispatched := dispatched st @ [failedFunctions st]\<rparr>"
    let ?st2 = "?st1\<lparr>failedFunctions := stillFailing ?re (failedFunctions st),
                       deployedFiles := deployedFiles st @ ?re\<rparr>"
    have n: "Suc (nat (amount - int (Suc i))) = nat (amount - int i)"
      using True by simp
    show ?thesis
    proof (cases "length ?re = 0")
      case e: True
      from "1.IH"(1) [OF True refl refl e]
      have "length (dispatched (redeployLoop deployFunction amount (Suc i) ?st1))
              \<le> length (dispatched ?st1) + nat (amount - int (Suc i))" .
      with True e n show ?thesis
        by (subst redeployLoop.simps) (simp add: Let_def)
    next
      case ne: False
      show ?thesis
      proof (cases "length (failedFunctions ?st2) = 0")
        case z: True
        with True ne show ?thesis
          by (subst redeployLoop.simps) (simp add: Let_def)
      next
        case nz: False
        from "1.IH"(2) [OF True refl refl ne refl nz]
        have "length (dispatched (redeployLoop deployFunction amount (Suc i) ?st2))
              \<le> length (dispatched ?st2) + nat (amount - int (Suc i))" .
        with True ne nz n show ?thesis
          by (subst redeployLoop.simps) (simp add: Let_def)
      qed
    qed
  qed
qed

lemma redeployFailedFunctions_bounded:
  "length (dispatched (redeployFailedFunctions deployFunction deployed failed options))
     \<le> (case retryAmount options of None \<Rightarrow> 0 | Some amount \<Rightarrow> nat amount)"
  using redeployLoop_rounds [of deployFunction _ 0
      "\<lparr>deployedFiles = deployed, failedFunctions = failed, dispatched = []\<rparr>"]
  by (auto simp: redeployFailedFunctions_def Let_def split: option.splits)

lemma redeployFailedFunctions_no_retry:
  assumes "retryAmount options = None \<or> retryAmount options = Some 0"
  shows "redeployFailedFunctions deployFunction deployed failed options
           = \<lparr>deployedFiles = deployed, failedFunctions = failed, dispatched = []\<rparr>"
  using assms by (auto simp: redeployFailedFunctions_def)

text \<open>
  Claim C1 says that a retry round dispatches exactly the functions that are still failing.
  \<open>redeployFailedFunctions\<close> does so for the lists it is given, runs at most
  \<^verbatim>\<open>retryAmount\<close> rounds and none when \<^verbatim>\<open>retryAmount\<close> is zero or undefined (the three
  lemmas above and the last theorem of this section). The executor, however, calls it with
  \<^verbatim>\<open>deployableFunctions\<close> in the place of \<^verbatim>\<open>deployedFiles\<close> and with \<^verbatim>\<open>deployedFiles\<close> in
  the place of \<^verbatim>\<open>failedFunctions\<close>. With two functions, of which \<open>b\<close> fails in the first
  pass only, the single retry round dispatches \<open>a\<close>, the function already deployed; \<open>b\<close>
  is never dispatched again and the executor's list of deployed files stays at \<open>a\<close>.
\<close>

theorem executor_retries_the_deployed_functions:
  "List.map_filter (bFailsFirst 0) [functionA, functionB] = [functionA]
   \<and> retryRounds (executorDeploy bFailsFirst retryTwice [functionA, functionB]) = [[functionA]]
   \<and> deployedFilesAfter (executorDeploy bFailsFirst retryTwice [functionA, functionB])
       = [functionA]
   \<and> deployableFunctionsAfter (executorDeploy bFailsFirst retryTwice [functionA, functionB])
       = [functionA, functionB, functionA]
   \<and> bFailsFirst 1 functionB = Some functionB"
  by code_simp

text \<open>Called with the deployed and the failing list in their places, the same round
  dispatches \<open>b\<close> and appends it to the deployed list.\<close>

theorem redeployFailedFunctions_retries_the_failing:
  "dispatched (redeployFailedFunctions (\<lambda>i. bFailsFirst (Suc i)) [functionA] [functionB] retryTwice)
     = [[functionB]]
   \<and> deployedFiles (redeployFailedFunctions (\<lambda>i. bFailsFirst (Suc i)) [functionA] [functionB] retryTwice)
     = [functionA, functionB]"
  by code_simp

end
